theory Spec2Isabelle
  imports Main "HOL-Library.Multiset"
begin

section \<open>JavaScript values used by the client\<close>

text \<open>
  Errors are values. \<open>Error m\<close> is a plain \<open>new Error(m)\<close> thrown by the client's own
  code; \<open>AxiosError m\<close> is what \<open>axios.get\<close> rejects with when the request fails
  (no connection, a non-2xx status).
\<close>

datatype js_error = Error string | AxiosError string

fun message :: "js_error \<Rightarrow> string" where
  "message (Error m) = m"
| "message (AxiosError m) = m"

text \<open>
  An optional string property: \<open>None\<close> is \<open>undefined\<close>. A string is truthy when it is
  not empty, and \<open>a || b\<close> is \<open>a\<close> when \<open>a\<close> is truthy and \<open>b\<close> otherwise.
\<close>

definition truthy :: "string option \<Rightarrow> bool" where
  "truthy v = (case v of None \<Rightarrow> False | Some s \<Rightarrow> s \<noteq> [])"

definition js_or :: "string option \<Rightarrow> string option \<Rightarrow> string option" where
  "js_or a b = (if truthy a then a else b)"

text \<open>\<open>String.prototype.toLowerCase\<close> on the ASCII letters (country codes are ASCII).\<close>

definition lower_char :: "char \<Rightarrow> char" where
  "lower_char c =
     (if 65 \<le> (of_char c :: nat) \<and> (of_char c :: nat) \<le> 90
      then char_of ((of_char c :: nat) + 32) else c)"

definition toLowerCase :: "string \<Rightarrow> string" where
  "toLowerCase s = map lower_char s"

section \<open>The upstream service and the clock\<close>

text \<open>
  A request is what \<open>buildUrl(endpoint, input)\<close> and the headers of \<open>axios.get\<close>
  determine: the endpoint, the fields of the JSON input in the order written, and the
  \<open>Authorization\<close> header when one is sent. The URL encoding itself is left out.
\<close>

datatype jsval = JStr string | JNum nat

record request =
  endpoint :: string
  input :: "(string \<times> jsval) list"
  authorization :: "string option"

definition buildUrl :: "string \<Rightarrow> (string \<times> jsval) list \<Rightarrow> request" where
  "buildUrl ep inp = \<lparr>endpoint = ep, input = inp, authorization = None\<rparr>"

text \<open>
  The records the upstream returns, with the fields the client reads. A field the code
  tests before use (\<open>country.code\<close>, \<open>dates?.lastConnectionAt\<close>, \<open>change.createdAt\<close>,
  \<open>items\<close>) is optional: \<open>None\<close> when the JSON lacks it. \<open>lastConnectionAt\<close> is the
  field of that name inside \<open>dates\<close>; \<open>from_legacy\<close> and \<open>to_legacy\<close> are the fields
  \<open>from\<close> and \<open>to\<close> of a change's \<open>data\<close>; \<open>any_date\<close> is the untyped \<open>date\<close>
  property the timeline reads.
\<close>

record country =
  country_id :: string
  country_name :: string
  country_code :: "string option"
  flagUrl :: "string option"

record user_lite =
  user_id :: string
  username :: string
  lastConnectionAt :: "string option"
  active :: "bool option"

record change_data =
  fromCountryId :: "string option"
  toCountryId :: "string option"
  from_legacy :: "string option"
  to_legacy :: "string option"

record citizenship_change =
  change_id :: string
  change_user :: string
  createdAt :: "string option"
  timestamp :: "string option"
  any_date :: "string option"
  change_payload :: "change_data option"

record action_log_response =
  log_items :: "citizenship_change list option"
  log_nextCursor :: "string option"

record users_response =
  users_items :: "user_lite list option"
  users_nextCursor :: "string option"

text \<open>
  The world outside the program. Each endpoint answers a request with \<open>Inl m\<close> (axios
  rejects with message \<open>m\<close>) or \<open>Inr d\<close> (\<open>response.data.result.data\<close> is \<open>d\<close>, of the
  shape the TypeScript interfaces declare). An answer may depend on the requests made
  before it, so the same request can be answered differently later. \<open>clock\<close> is what
  \<open>new Date()\<close> reads after the given requests, in milliseconds since the epoch;
  \<open>Date_parse\<close> is the engine's date parser (\<open>None\<close> is NaN). \<open>local_time\<close> and
  \<open>utc_time\<close> are the engine's \<open>LocalTime\<close> and \<open>UTC\<close> for the browser's time zone:
  the local time value of an instant, and the instant of a local time value. In a zone
  that changes its clocks the offset between the two depends on the instant.
\<close>

record world =
  country_reply :: "request list \<Rightarrow> request \<Rightarrow> string + country"
  countries_reply :: "request list \<Rightarrow> request \<Rightarrow> string + country list"
  users_reply :: "request list \<Rightarrow> request \<Rightarrow> string + users_response"
  user_reply :: "request list \<Rightarrow> request \<Rightarrow> string + user_lite"
  action_log_reply :: "request list \<Rightarrow> request \<Rightarrow> string + action_log_response"
  clock :: "request list \<Rightarrow> int"
  Date_parse :: "string \<Rightarrow> int option"
  local_time :: "int \<Rightarrow> int"
  utc_time :: "int \<Rightarrow> int"

section \<open>The API client (services/api.ts)\<close>

text \<open>
  The fields of \<open>WarEraAPI\<close>, and two ghost fields: \<open>requests\<close>, every request handed
  to \<open>axios.get\<close> in order, and \<open>console\<close>, the lines written with \<open>console.error\<close>.
\<close>

record api_state =
  authToken :: string
  countryCache :: "string \<rightharpoonup> country"
  requests :: "request list"
  console :: "string list"

definition new_api :: api_state where
  "new_api = \<lparr>authToken = [], countryCache = Map.empty, requests = [], console = []\<rparr>"

definition setAuthToken :: "api_state \<Rightarrow> string \<Rightarrow> api_state" where
  "setAuthToken s token = s\<lparr>authToken := token\<rparr>"

definition getCountryFromCache :: "api_state \<Rightarrow> string \<Rightarrow> country option" where
  "getCountryFromCache s countryId = countryCache s countryId"

definition axios_get :: "api_state \<Rightarrow> request \<Rightarrow> api_state" where
  "axios_get s req = s\<lparr>requests := requests s @ [req]\<rparr>"

definition console_error :: "api_state \<Rightarrow> string \<Rightarrow> api_state" where
  "console_error s line = s\<lparr>console := console s @ [line]\<rparr>"

definition with_flag :: "country \<Rightarrow> country" where
  "with_flag c =
     (case country_code c of
        None \<Rightarrow> c
      | Some code \<Rightarrow>
          if code = [] then c
          else c\<lparr>flagUrl := Some (''https://flagcdn.com/w40/'' @ toLowerCase code @ ''.png'')\<rparr>)"

definition getCountryById :: "world \<Rightarrow> api_state \<Rightarrow> string \<Rightarrow> country option \<times> api_state" where
  "getCountryById w s countryId =
     (case countryCache s countryId of
        Some c \<Rightarrow> (Some c, s)
      | None \<Rightarrow>
          (let req = buildUrl ''country.getCountryById'' [(''countryId'', JStr countryId)];
               s1 = axios_get s req
           in case country_reply w (requests s) req of
                Inl m \<Rightarrow>
                  (None, console_error s1 (''Error fetching country '' @ countryId @ '': '' @ m))
              | Inr c \<Rightarrow>
                  (Some (with_flag c),
                   s1\<lparr>countryCache := (countryCache s1)(countryId \<mapsto> with_flag c)\<rparr>)))"

definition getUsersByCountry ::
  "world \<Rightarrow> api_state \<Rightarrow> string \<Rightarrow> string \<Rightarrow> nat \<Rightarrow> (js_error + users_response) \<times> api_state" where
  "getUsersByCountry w s countryId cursor limit =
     (let req = buildUrl ''user.getUsersByCountry''
                   [(''countryId'', JStr countryId), (''cursor'', JStr cursor), (''limit'', JNum limit)]
      in (case users_reply w (requests s) req of
            Inl m \<Rightarrow> Inl (AxiosError m)
          | Inr d \<Rightarrow> Inr d,
          axios_get s req))"

definition getCitizenshipChanges ::
  "world \<Rightarrow> api_state \<Rightarrow> string \<Rightarrow> string \<Rightarrow> (js_error + action_log_response) \<times> api_state" where
  "getCitizenshipChanges w s userId cursor =
     (if authToken s = [] then
        (Inl (Error ''Authorization token is required for this operation''), s)
      else
        (let req = (buildUrl ''actionLog.getPaginated''
                      [(''limit'', JNum 100), (''userId'', JStr userId),
                       (''actionType'', JStr ''changedCitizenship''),
                       (''direction'', JStr ''forward''), (''cursor'', JStr cursor)])
                   \<lparr>authorization := Some (authToken s)\<rparr>
         in (case action_log_reply w (requests s) req of
               Inl m \<Rightarrow> Inl (AxiosError m)
             | Inr d \<Rightarrow> Inr d,
             axios_get s req)))"

fun cache_all :: "api_state \<Rightarrow> country list \<Rightarrow> api_state" where
  "cache_all s [] = s"
| "cache_all s (c # cs) =
     cache_all (s\<lparr>countryCache := (countryCache s)(country_id c \<mapsto> with_flag c)\<rparr>) cs"

definition getAllCountries :: "world \<Rightarrow> api_state \<Rightarrow> country list \<times> api_state" where
  "getAllCountries w s =
     (let req = buildUrl ''country.getAllCountries'' [];
          s1 = axios_get s req
      in case countries_reply w (requests s) req of
           Inl m \<Rightarrow> ([], console_error s1 (''Error fetching countries: '' @ m))
         | Inr cs \<Rightarrow> (map with_flag cs, cache_all s1 cs))"


subsection \<open>Dates and \<open>getUserLite\<close>\<close>

text \<open>
  A \<open>Date\<close> is its time value, \<open>None\<close> for NaN (an Invalid Date). \<open>new Date(s)\<close> for a
  string goes through the parser; the empty string is never a date. Relational operators
  on dates compare the time values and are false when either side is NaN; subtracting
  two time values gives NaN when either is NaN.
\<close>

type_synonym js_date = "int option"

definition new_Date :: "world \<Rightarrow> string \<Rightarrow> js_date" where
  "new_Date w s = (if s = [] then None else Date_parse w s)"

definition date_ge :: "js_date \<Rightarrow> js_date \<Rightarrow> bool" where
  "date_ge a b = (case a of None \<Rightarrow> False | Some x \<Rightarrow> (case b of None \<Rightarrow> False | Some y \<Rightarrow> y \<le> x))"

definition date_le :: "js_date \<Rightarrow> js_date \<Rightarrow> bool" where
  "date_le a b = (case a of None \<Rightarrow> False | Some x \<Rightarrow> (case b of None \<Rightarrow> False | Some y \<Rightarrow> x \<le> y))"

definition time_minus :: "js_date \<Rightarrow> js_date \<Rightarrow> int option" where
  "time_minus a b = (case a of None \<Rightarrow> None | Some x \<Rightarrow> (case b of None \<Rightarrow> None | Some y \<Rightarrow> Some (x - y)))"

definition msPerDay :: int where
  "msPerDay = 86400000"

text \<open>
  The setters work on the local time value and convert the result back.
  \<open>d.setDate(d.getDate() - n)\<close> moves a valid date back by \<open>n\<close> calendar days and keeps
  the local time of day, so across a change of the clocks the instant moves by an hour
  more or less than \<open>n\<close> times 24 hours. \<open>d.setHours(0, 0, 0, 0)\<close> is the local midnight
  that starts the local day of \<open>d\<close>, \<open>d.setHours(23, 59, 59, 999)\<close> the last millisecond
  of that local day.
\<close>

definition setDate_back :: "world \<Rightarrow> int \<Rightarrow> int \<Rightarrow> int" where
  "setDate_back w t n = utc_time w (local_time w t - n * msPerDay)"

definition local_midnight :: "world \<Rightarrow> int \<Rightarrow> int" where
  "local_midnight w t = utc_time w ((local_time w t div msPerDay) * msPerDay)"

definition setHours_start :: "world \<Rightarrow> js_date \<Rightarrow> js_date" where
  "setHours_start w d = map_option (local_midnight w) d"

definition setHours_end :: "world \<Rightarrow> js_date \<Rightarrow> js_date" where
  "setHours_end w d =
     map_option (\<lambda>t. utc_time w ((local_time w t div msPerDay) * msPerDay + (msPerDay - 1))) d"

definition getUserLite :: "world \<Rightarrow> api_state \<Rightarrow> string \<Rightarrow> (js_error + user_lite) \<times> api_state" where
  "getUserLite w s userId =
     (let req = buildUrl ''user.getUserLite'' [(''userId'', JStr userId)];
          s1 = axios_get s req
      in case user_reply w (requests s) req of
           Inl m \<Rightarrow> (Inl (AxiosError m), s1)
         | Inr userData \<Rightarrow>
             (if truthy (lastConnectionAt userData) then
                (let lastPlayedDate = new_Date w (the (lastConnectionAt userData));
                     tenDaysAgo = setDate_back w (clock w (requests s1)) 10
                 in (Inr (userData\<lparr>active := Some (date_ge lastPlayedDate (Some tenDaysAgo))\<rparr>), s1))
              else (Inr (userData\<lparr>active := Some False\<rparr>), s1)))"

subsection \<open>Interleaved client calls\<close>

text \<open>
  \<open>getCountryById\<close> and \<open>getAllCountries\<close> are \<open>async\<close>: a call runs up to its
  \<open>await axios.get\<close> and its continuation runs when the request has settled, after
  whatever else ran on the shared client in between (every timeline component calls
  \<open>getCountryById\<close> as it mounts). The two halves of each, the continuation taking what
  axios settled with: \<open>getCountryById_call\<close> returns the cached country when there is
  one, and \<open>None\<close> when the call is suspended at its request.
\<close>

definition getCountryById_call :: "api_state \<Rightarrow> string \<Rightarrow> country option \<times> api_state" where
  "getCountryById_call s countryId =
     (case countryCache s countryId of
        Some c \<Rightarrow> (Some c, s)
      | None \<Rightarrow>
          (None, axios_get s (buildUrl ''country.getCountryById'' [(''countryId'', JStr countryId)])))"

definition getCountryById_resume ::
  "api_state \<Rightarrow> string \<Rightarrow> string + country \<Rightarrow> country option \<times> api_state" where
  "getCountryById_resume s countryId reply =
     (case reply of
        Inl m \<Rightarrow> (None, console_error s (''Error fetching country '' @ countryId @ '': '' @ m))
      | Inr c \<Rightarrow>
          (Some (with_flag c), s\<lparr>countryCache := (countryCache s)(countryId \<mapsto> with_flag c)\<rparr>))"

definition getAllCountries_call :: "api_state \<Rightarrow> api_state" where
  "getAllCountries_call s = axios_get s (buildUrl ''country.getAllCountries'' [])"

definition getAllCountries_resume :: "api_state \<Rightarrow> string + country list \<Rightarrow> country list \<times> api_state" where
  "getAllCountries_resume s reply =
     (case reply of
        Inl m \<Rightarrow> ([], console_error s (''Error fetching countries: '' @ m))
      | Inr cs \<Rightarrow> (map with_flag cs, cache_all s cs))"

text \<open>
  What can happen on the client, one uninterrupted stretch at a time. The other three
  requests touch the client only before their \<open>await\<close>, so each is one event; the
  events of the two cache-filling operations are their halves, in any order the
  scheduler produces. \<open>may_store e k\<close> says that the event \<open>e\<close> assigns to the cache
  entry of \<open>k\<close>.
\<close>

datatype api_event =
    SetAuthToken string
  | GetCountryFromCache string
  | GetUsersByCountry string string nat
  | GetUserLite string
  | GetCitizenshipChanges string string
  | CountryCalled string
  | CountryResumed string "string + country"
  | CountriesCalled
  | CountriesResumed "string + country list"

fun after_event :: "world \<Rightarrow> api_state \<Rightarrow> api_event \<Rightarrow> api_state" where
  "after_event w s (SetAuthToken token) = setAuthToken s token"
| "after_event w s (GetCountryFromCache countryId) = s"
| "after_event w s (GetUsersByCountry countryId cursor limit) =
     snd (getUsersByCountry w s countryId cursor limit)"
| "after_event w s (GetUserLite userId) = snd (getUserLite w s userId)"
| "after_event w s (GetCitizenshipChanges userId cursor) =
     snd (getCitizenshipChanges w s userId cursor)"
| "after_event w s (CountryCalled countryId) = snd (getCountryById_call s countryId)"
| "after_event w s (CountryResumed countryId reply) = snd (getCountryById_resume s countryId reply)"
| "after_event w s CountriesCalled = getAllCountries_call s"
| "after_event w s (CountriesResumed reply) = snd (getAllCountries_resume s reply)"

fun after_events :: "world \<Rightarrow> api_state \<Rightarrow> api_event list \<Rightarrow> api_state" where
  "after_events w s [] = s"
| "after_events w s (e # es) = after_events w (after_event w s e) es"

fun may_store :: "api_event \<Rightarrow> string \<Rightarrow> bool" where
  "may_store (CountryResumed countryId (Inr c)) k = (countryId = k)"
| "may_store (CountriesResumed (Inr cs)) k = (k \<in> country_id ` set cs)"
| "may_store e k = False"

section \<open>The tracker view (views/CitizenshipTracker.vue)\<close>

record player_data =
  player_user :: user_lite
  citizenshipChanges :: "citizenship_change list"
  player_loading :: bool
  player_error :: "string option"

record flattened_change =
  row_username :: string
  row_userId :: string
  row_change :: citizenship_change
  row_fromCountryId :: "string option"
  row_toCountryId :: "string option"
  row_date :: js_date

datatype sort_order = Asc | Desc

record tracker =
  api :: api_state
  view_authToken :: string
  selectedCountryId :: string
  loading :: bool
  players :: "player_data list"
  error :: string
  progress_current :: nat
  progress_total :: nat
  stats_total :: nat
  stats_active :: nat
  stats_inactive :: nat
  sortOrder :: sort_order
  filterSourceCountryId :: string
  filterDestinationCountryId :: string
  filterStartDate :: string
  filterEndDate :: string

subsection \<open>Flattening and sorting: \<open>allChanges\<close>\<close>

definition data_field :: "(change_data \<Rightarrow> string option) \<Rightarrow> citizenship_change \<Rightarrow> string option" where
  "data_field f change = (case change_payload change of None \<Rightarrow> None | Some d \<Rightarrow> f d)"

definition date_string :: "citizenship_change \<Rightarrow> string" where
  "date_string change =
     (case js_or (js_or (createdAt change) (timestamp change)) (Some []) of
        None \<Rightarrow> [] | Some s \<Rightarrow> s)"

definition flatten_change :: "world \<Rightarrow> player_data \<Rightarrow> citizenship_change \<Rightarrow> flattened_change" where
  "flatten_change w player change =
     \<lparr>row_username = username (player_user player),
      row_userId = user_id (player_user player),
      row_change = change,
      row_fromCountryId = js_or (data_field fromCountryId change) (data_field from_legacy change),
      row_toCountryId = js_or (data_field toCountryId change) (data_field to_legacy change),
      row_date = new_Date w (date_string change)\<rparr>"

definition flatten :: "world \<Rightarrow> player_data list \<Rightarrow> flattened_change list" where
  "flatten w ps = concat (map (\<lambda>player. map (flatten_change w player) (citizenshipChanges player)) ps)"

text \<open>
  The comparator of \<open>allChanges\<close>. A comparator's NaN counts as 0 in
  \<open>Array.prototype.sort\<close>.
\<close>

definition compare_rows :: "sort_order \<Rightarrow> flattened_change \<Rightarrow> flattened_change \<Rightarrow> int" where
  "compare_rows ord a b =
     (case (case ord of Desc \<Rightarrow> time_minus (row_date b) (row_date a)
                      | Asc \<Rightarrow> time_minus (row_date a) (row_date b)) of
        None \<Rightarrow> 0 | Some v \<Rightarrow> v)"

text \<open>
  \<open>Array.prototype.sort\<close> is stable. It is modelled as insertion sort: each element in
  turn moves left past the elements before it for which the comparator is positive.
  \<open>sort_insert\<close> works on the sorted prefix in reverse. For a comparator that orders
  by a key this is the one result every stable sort gives (\<open>js_sort_by_key\<close> below);
  for a comparator that is not a consistent order the engine is free, and the model is
  what insertion gives.
\<close>

fun sort_insert :: "('a \<Rightarrow> 'a \<Rightarrow> int) \<Rightarrow> 'a \<Rightarrow> 'a list \<Rightarrow> 'a list" where
  "sort_insert cmp x [] = [x]"
| "sort_insert cmp x (y # ys) = (if 0 < cmp y x then y # sort_insert cmp x ys else x # y # ys)"

definition js_sort :: "('a \<Rightarrow> 'a \<Rightarrow> int) \<Rightarrow> 'a list \<Rightarrow> 'a list" where
  "js_sort cmp xs = rev (foldl (\<lambda>acc x. sort_insert cmp x acc) [] xs)"

definition allChanges :: "world \<Rightarrow> tracker \<Rightarrow> flattened_change list" where
  "allChanges w v = js_sort (compare_rows (sortOrder v)) (flatten w (players v))"

definition toggleSort :: "tracker \<Rightarrow> tracker" where
  "toggleSort v = v\<lparr>sortOrder := (if sortOrder v = Desc then Asc else Desc)\<rparr>"

text \<open>The time value of a row whose date is valid.\<close>

definition row_time :: "flattened_change \<Rightarrow> int" where
  "row_time r = the (row_date r)"


text \<open>\<open>toLocaleDateString\<close> is the engine's; it is a parameter of \<open>formatDate\<close>.\<close>

definition formatDate :: "(int \<Rightarrow> string) \<Rightarrow> js_date \<Rightarrow> string" where
  "formatDate toLocaleDateString d =
     (case d of None \<Rightarrow> ''Invalid date'' | Some t \<Rightarrow> toLocaleDateString t)"

subsection \<open>Filtering: \<open>filteredChanges\<close>\<close>

definition filteredChanges :: "world \<Rightarrow> tracker \<Rightarrow> flattened_change list" where
  "filteredChanges w v =
     (let changes = allChanges w v;
          changes = (if filterSourceCountryId v \<noteq> []
                     then filter (\<lambda>change. row_fromCountryId change = Some (filterSourceCountryId v)) changes
                     else changes);
          changes = (if filterDestinationCountryId v \<noteq> []
                     then filter (\<lambda>change. row_toCountryId change = Some (filterDestinationCountryId v)) changes
                     else changes);
          changes = (if filterStartDate v \<noteq> []
                     then (let startDate = setHours_start w (new_Date w (filterStartDate v))
                           in filter (\<lambda>change. date_ge (row_date change) startDate) changes)
                     else changes);
          changes = (if filterEndDate v \<noteq> []
                     then (let endDate = setHours_end w (new_Date w (filterEndDate v))
                           in filter (\<lambda>change. date_le (row_date change) endDate) changes)
                     else changes)
      in changes)"

subsection \<open>Grouping: \<open>groupedChanges\<close>\<close>

text \<open>
  A \<open>Map\<close> iterates in insertion order, so it is an association list with distinct keys:
  \<open>set\<close> on a new key appends, and pushing to the array stored under a key changes that
  entry in place.
\<close>

record change_group =
  group_username :: string
  group_userId :: string
  group_changes :: "flattened_change list"

definition map_has :: "('k \<times> 'v) list \<Rightarrow> 'k \<Rightarrow> bool" where
  "map_has m k = (k \<in> set (map fst m))"

definition map_push :: "('k \<times> 'v list) list \<Rightarrow> 'k \<Rightarrow> 'v \<Rightarrow> ('k \<times> 'v list) list" where
  "map_push m k x = map (\<lambda>(k', xs). if k' = k then (k', xs @ [x]) else (k', xs)) m"

definition group_step ::
  "(string \<times> flattened_change list) list \<Rightarrow> flattened_change \<Rightarrow> (string \<times> flattened_change list) list" where
  "group_step groups change =
     (let groups = (if \<not> map_has groups (row_username change)
                    then groups @ [(row_username change, [])] else groups)
      in map_push groups (row_username change) change)"

definition group_rows :: "flattened_change list \<Rightarrow> change_group list" where
  "group_rows rows =
     map (\<lambda>(name, changes).
            \<lparr>group_username = name, group_userId = row_userId (hd changes), group_changes = changes\<rparr>)
         (foldl group_step [] rows)"

definition groupedChanges :: "world \<Rightarrow> tracker \<Rightarrow> change_group list" where
  "groupedChanges w v = group_rows (filteredChanges w v)"

text \<open>
  What the grouping computes, written without the \<open>Map\<close>: the user names in the order
  they first appear, each with the rows that bear it.
\<close>

fun first_seen :: "'a list \<Rightarrow> 'a list" where
  "first_seen [] = []"
| "first_seen (x # xs) = x # filter (\<lambda>y. y \<noteq> x) (first_seen xs)"

definition rows_of :: "string \<Rightarrow> flattened_change list \<Rightarrow> flattened_change list" where
  "rows_of name rows = filter (\<lambda>row. row_username row = name) rows"

definition grouped :: "flattened_change list \<Rightarrow> (string \<times> flattened_change list) list" where
  "grouped rows = map (\<lambda>name. (name, rows_of name rows)) (first_seen (map row_username rows))"

subsection \<open>The batch fetch: \<open>fetchPlayersAndChanges\<close>\<close>

definition handleAuthTokenChange :: "tracker \<Rightarrow> string \<Rightarrow> tracker" where
  "handleAuthTokenChange v val = v\<lparr>view_authToken := val, api := setAuthToken (api v) val\<rparr>"

text \<open>
  One turn of the loop over the roster, in the three stretches between its suspension
  points: \<open>begin_user\<close> up to the call of \<open>getUserLite\<close>; \<open>classify_user\<close> from its
  answer up to the call of \<open>getCitizenshipChanges\<close> (the flag says whether that call is
  made: it is not after a failure caught by the outer \<open>catch\<close>, nor after \<open>continue\<close>);
  \<open>load_changes\<close> from that answer to the end of the turn. \<open>playerData\<close> is the object
  pushed last, so assigning to its fields changes the last element of \<open>players\<close>.
\<close>

definition begin_user :: "tracker \<Rightarrow> tracker" where
  "begin_user v = v\<lparr>progress_current := progress_current v + 1\<rparr>"

definition classify_user :: "world \<Rightarrow> tracker \<Rightarrow> user_lite \<Rightarrow> tracker \<times> bool" where
  "classify_user w v user =
     (case getUserLite w (api v) (user_id user) of
        (Inl err, a) \<Rightarrow>
          (v\<lparr>api := console_error a (''Error fetching user '' @ user_id user @ '': '' @ message err)\<rparr>,
           False)
      | (Inr userLite, a) \<Rightarrow>
          if active userLite \<noteq> Some True then
            (v\<lparr>api := a, stats_inactive := stats_inactive v + 1\<rparr>, False)
          else
            (v\<lparr>api := a, stats_active := stats_active v + 1,
               players := players v @
                 [\<lparr>player_user = userLite, citizenshipChanges = [], player_loading = True,
                   player_error = None\<rparr>]\<rparr>,
             True))"

definition update_last :: "('a \<Rightarrow> 'a) \<Rightarrow> 'a list \<Rightarrow> 'a list" where
  "update_last f xs = (if xs = [] then [] else butlast xs @ [f (last xs)])"

definition load_changes :: "world \<Rightarrow> tracker \<Rightarrow> user_lite \<Rightarrow> tracker" where
  "load_changes w v user =
     (case getCitizenshipChanges w (api v) (user_id user) [] of
        (Inl err, a) \<Rightarrow>
          v\<lparr>api := a,
            players := update_last
              (\<lambda>playerData. playerData
                 \<lparr>player_error := Some (''Failed to load citizenship changes: '' @ message err),
                  player_loading := False\<rparr>) (players v)\<rparr>
      | (Inr changesResponse, a) \<Rightarrow>
          v\<lparr>api := a,
            players := update_last
              (\<lambda>playerData. playerData
                 \<lparr>citizenshipChanges := (case log_items changesResponse of None \<Rightarrow> [] | Some xs \<Rightarrow> xs),
                  player_loading := False\<rparr>) (players v)\<rparr>)"

definition process_user :: "world \<Rightarrow> tracker \<Rightarrow> user_lite \<Rightarrow> tracker" where
  "process_user w v user =
     (case classify_user w (begin_user v) user of
        (v', False) \<Rightarrow> v'
      | (v', True) \<Rightarrow> load_changes w v' user)"

fun process_users :: "world \<Rightarrow> tracker \<Rightarrow> user_lite list \<Rightarrow> tracker" where
  "process_users w v [] = v"
| "process_users w v (user # rest) = process_users w (process_user w v user) rest"

definition reset_view :: "tracker \<Rightarrow> tracker" where
  "reset_view v =
     v\<lparr>loading := True, error := [], players := [], progress_current := 0, progress_total := 0,
       stats_total := 0, stats_active := 0, stats_inactive := 0\<rparr>"

definition roster_loaded :: "tracker \<Rightarrow> api_state \<Rightarrow> user_lite list \<Rightarrow> tracker" where
  "roster_loaded v a allUsers =
     v\<lparr>api := a, progress_total := length allUsers, stats_total := length allUsers\<rparr>"

definition fetchPlayersAndChanges :: "world \<Rightarrow> tracker \<Rightarrow> tracker" where
  "fetchPlayersAndChanges w v =
     (if selectedCountryId v = [] then v\<lparr>error := ''Please select a country''\<rparr>
      else if view_authToken v = [] then v\<lparr>error := ''Please enter an authorization token''\<rparr>
      else
        (let v1 = reset_view v in
         case getUsersByCountry w (api v1) (selectedCountryId v1) [] 100 of
           (Inl err, a) \<Rightarrow>
             v1\<lparr>api := a, error := ''Failed to fetch players: '' @ message err, loading := False\<rparr>
         | (Inr usersResponse, a) \<Rightarrow>
             (let allUsers = (case users_items usersResponse of None \<Rightarrow> [] | Some xs \<Rightarrow> xs)
              in (process_users w (roster_loaded v1 a allUsers) allUsers)\<lparr>loading := False\<rparr>)))"

text \<open>
  The states an observer can see during a run, in order: the code runs to the next
  \<open>await\<close> without interruption, so these are the states at the suspension points and
  the state the run ends in.
\<close>

definition turn_states :: "world \<Rightarrow> tracker \<Rightarrow> user_lite \<Rightarrow> tracker list" where
  "turn_states w v user =
     begin_user v #
     (case classify_user w (begin_user v) user of
        (v', False) \<Rightarrow> []
      | (v', True) \<Rightarrow> [v'])"

fun loop_states :: "world \<Rightarrow> tracker \<Rightarrow> user_lite list \<Rightarrow> tracker list" where
  "loop_states w v [] = []"
| "loop_states w v (user # rest) = turn_states w v user @ loop_states w (process_user w v user) rest"

definition fetch_states :: "world \<Rightarrow> tracker \<Rightarrow> tracker list" where
  "fetch_states w v =
     (if selectedCountryId v = [] \<or> view_authToken v = [] then [fetchPlayersAndChanges w v]
      else
        reset_view v #
        (case getUsersByCountry w (api (reset_view v)) (selectedCountryId v) [] 100 of
           (Inl err, a) \<Rightarrow> []
         | (Inr usersResponse, a) \<Rightarrow>
             (let allUsers = (case users_items usersResponse of None \<Rightarrow> [] | Some xs \<Rightarrow> xs)
              in loop_states w (roster_loaded (reset_view v) a allUsers) allUsers)) @
        [fetchPlayersAndChanges w v])"

definition counters_ok :: "tracker \<Rightarrow> bool" where
  "counters_ok v =
     (stats_active v + stats_inactive v \<le> progress_current v \<and>
      progress_current v \<le> progress_total v \<and>
      progress_total v = stats_total v)"

definition new_tracker :: tracker where
  "new_tracker =
     \<lparr>api = new_api, view_authToken = [], selectedCountryId = [], loading = False, players = [],
      error = [], progress_current = 0, progress_total = 0, stats_total = 0, stats_active = 0,
      stats_inactive = 0, sortOrder = Desc, filterSourceCountryId = [],
      filterDestinationCountryId = [], filterStartDate = [], filterEndDate = []\<rparr>"


text \<open>
  The loop invariant of the batch fetch, with \<open>n\<close> users of the roster still to come.
\<close>

definition loop_inv :: "tracker \<Rightarrow> nat \<Rightarrow> bool" where
  "loop_inv v n =
     (stats_active v + stats_inactive v \<le> progress_current v \<and>
      progress_current v + n \<le> progress_total v \<and>
      progress_total v = stats_total v)"


section \<open>The timeline of one player (components/CitizenshipDiagram.vue)\<close>

text \<open>
  The diagram shows the same changes as the tracker's table. It takes the date of a
  change from \<open>change.timestamp || change.createdAt || change.date\<close>, both when it sorts
  and in its own \<open>formatDate\<close>.
\<close>

definition diagram_date_string :: "citizenship_change \<Rightarrow> string option" where
  "diagram_date_string change = js_or (js_or (timestamp change) (createdAt change)) (any_date change)"

definition diagram_formatDate :: "(int \<Rightarrow> string) \<Rightarrow> world \<Rightarrow> citizenship_change \<Rightarrow> string" where
  "diagram_formatDate toLocaleDateString w change =
     (let dateString = diagram_date_string change
      in if \<not> truthy dateString then ''Unknown date''
         else (case new_Date w (the dateString) of
                 None \<Rightarrow> ''Invalid date''
               | Some t \<Rightarrow> toLocaleDateString t))"


section \<open>A concrete world for evaluation\<close>

text \<open>
  The ECMAScript date-time string format, as far as the examples need it:
  \<open>YYYY-MM-DD\<close> is midnight UTC of that day; \<open>YYYY-MM-DDTHH:mm:ss\<close>, optionally with
  \<open>.sss\<close>, is a local time, and a UTC time when \<open>Z\<close> follows. \<open>days_from_civil\<close> counts
  the days from 1970-01-01 to a date of the proleptic Gregorian calendar.
\<close>

definition digit :: "char \<Rightarrow> nat option" where
  "digit c =
     (if 48 \<le> (of_char c :: nat) \<and> (of_char c :: nat) \<le> 57
      then Some ((of_char c :: nat) - 48) else None)"

fun digits :: "nat \<Rightarrow> string \<Rightarrow> nat option" where
  "digits acc [] = Some acc"
| "digits acc (c # cs) = (case digit c of None \<Rightarrow> None | Some d \<Rightarrow> digits (10 * acc + d) cs)"

definition days_from_civil :: "int \<Rightarrow> int \<Rightarrow> int \<Rightarrow> int" where
  "days_from_civil y m d =
     (let y' = (if m \<le> 2 then y - 1 else y);
          era = y' div 400;
          yoe = y' - era * 400;
          doy = (153 * (if 2 < m then m - 3 else m + 9) + 2) div 5 + d - 1;
          doe = yoe * 365 + yoe div 4 - yoe div 100 + doy
      in era * 146097 + doe - 719468)"

definition parse_day :: "string \<Rightarrow> int option" where
  "parse_day s =
     (if length s = 10 \<and> take 1 (drop 4 s) = ''-'' \<and> take 1 (drop 7 s) = ''-'' then
        (case (digits 0 (take 4 s), digits 0 (take 2 (drop 5 s)), digits 0 (drop 8 s)) of
           (Some y, Some m, Some d) \<Rightarrow>
             if 1 \<le> m \<and> m \<le> 12 \<and> 1 \<le> d \<and> d \<le> 31
             then Some (days_from_civil (int y) (int m) (int d)) else None
         | _ \<Rightarrow> None)
      else None)"

definition parse_clock :: "string \<Rightarrow> int option" where
  "parse_clock s =
     (if (length s = 8 \<or> length s = 12 \<and> take 1 (drop 8 s) = ''.'') \<and>
         take 1 (drop 2 s) = '':'' \<and> take 1 (drop 5 s) = '':'' then
        (case (digits 0 (take 2 s), digits 0 (take 2 (drop 3 s)), digits 0 (take 2 (drop 6 s)),
               digits 0 (drop 9 s)) of
           (Some h, Some mi, Some sec, Some ms) \<Rightarrow>
             if h \<le> 23 \<and> mi \<le> 59 \<and> sec \<le> 59
             then Some (int (((h * 60 + mi) * 60 + sec) * 1000 + ms)) else None
         | _ \<Rightarrow> None)
      else None)"

definition iso_parse :: "int \<Rightarrow> string \<Rightarrow> int option" where
  "iso_parse tz s =
     (if length s = 10 then map_option (\<lambda>d. d * msPerDay) (parse_day s)
      else if 10 < length s \<and> take 1 (drop 10 s) = ''T'' then
        (let utc = (last s = CHR ''Z'');
             clock_part = (if utc then butlast (drop 11 s) else drop 11 s)
         in case (parse_day (take 10 s), parse_clock clock_part) of
              (Some d, Some ms) \<Rightarrow> Some (d * msPerDay + ms - (if utc then 0 else tz))
            | _ \<Rightarrow> None)
      else None)"

text \<open>
  A world in a zone with the given fixed offset (local time is UTC plus the offset) in
  which every request fails with a network error; the examples override the endpoints
  they use.
\<close>

definition offline :: "int \<Rightarrow> int \<Rightarrow> world" where
  "offline tz now =
     \<lparr>country_reply = (\<lambda>_ _. Inl ''Network Error''),
      countries_reply = (\<lambda>_ _. Inl ''Network Error''),
      users_reply = (\<lambda>_ _. Inl ''Network Error''),
      user_reply = (\<lambda>_ _. Inl ''Network Error''),
      action_log_reply = (\<lambda>_ _. Inl ''Network Error''),
      clock = (\<lambda>_. now),
      Date_parse = iso_parse tz,
      local_time = (\<lambda>t. t + tz),
      utc_time = (\<lambda>l. l - tz)\<rparr>"


definition belgium :: country where
  "belgium = \<lparr>country_id = ''c1'', country_name = ''Belgium'', country_code = Some ''BE'', flagUrl = None\<rparr>"

definition belgium_online :: world where
  "belgium_online = (offline 0 0)\<lparr>country_reply := (\<lambda>_ _. Inr belgium)\<rparr>"

text \<open>
  A world in which the country list gives country \<open>c1\<close> another name than the lookup by
  identifier does.
\<close>

definition renamed :: world where
  "renamed =
     (offline 0 0)
       \<lparr>country_reply :=
          (\<lambda>_ _. Inr \<lparr>country_id = ''c1'', country_name = ''Belgium'', country_code = None, flagUrl = None\<rparr>),
        countries_reply :=
          (\<lambda>_ _. Inr [\<lparr>country_id = ''c1'', country_name = ''Belgique'', country_code = None, flagUrl = None\<rparr>])\<rparr>"


definition belgique :: country where
  "belgique = \<lparr>country_id = ''c1'', country_name = ''Belgique'', country_code = Some ''BE'', flagUrl = None\<rparr>"





text \<open>
  A roster of four users on 2024-01-11 (UTC): the lookup of \<open>u1\<close> fails, \<open>u2\<close> and
  \<open>u4\<close> connected the day before, \<open>u3\<close> never did; the change log of \<open>u2\<close> fails
  and that of \<open>u4\<close> holds one change. \<open>lonely_world\<close> has a roster of one user whose
  lookup fails. \<open>ready\<close> is the view with a country selected and a token entered.
\<close>

definition roster_user :: "string \<Rightarrow> user_lite" where
  "roster_user i = \<lparr>user_id = i, username = ''player-'' @ i, lastConnectionAt = None, active = None\<rparr>"

definition sample_change :: citizenship_change where
  "sample_change =
     \<lparr>change_id = ''a1'', change_user = ''u4'', createdAt = Some ''2024-01-05T12:00:00.000Z'',
      timestamp = None, any_date = None,
      change_payload = Some \<lparr>fromCountryId = Some ''c1'', toCountryId = Some ''c2'',
                             from_legacy = None, to_legacy = None\<rparr>\<rparr>"

definition roster_world :: world where
  "roster_world =
     (offline 0 1704931200000)
       \<lparr>users_reply :=
          (\<lambda>_ _. Inr \<lparr>users_items = Some (map roster_user [''u1'', ''u2'', ''u3'', ''u4'']),
                        users_nextCursor = None\<rparr>),
        user_reply :=
          (\<lambda>_ req.
             if input req = [(''userId'', JStr ''u1'')] then Inl ''Network Error''
             else if input req = [(''userId'', JStr ''u3'')] then Inr (roster_user ''u3'')
             else if input req = [(''userId'', JStr ''u2'')]
               then Inr ((roster_user ''u2'')\<lparr>lastConnectionAt := Some ''2024-01-10T00:00:00.000Z''\<rparr>)
             else Inr ((roster_user ''u4'')\<lparr>lastConnectionAt := Some ''2024-01-10T00:00:00.000Z''\<rparr>)),
        action_log_reply :=
          (\<lambda>_ req.
             if (''userId'', JStr ''u2'') \<in> set (input req)
             then Inl ''Request failed with status code 500''
             else Inr \<lparr>log_items = Some [sample_change], log_nextCursor = None\<rparr>)\<rparr>"

definition ready :: tracker where
  "ready = handleAuthTokenChange (new_tracker\<lparr>selectedCountryId := ''c1''\<rparr>) ''secret''"


definition lonely_world :: world where
  "lonely_world =
     (offline 0 1704931200000)
       \<lparr>users_reply := (\<lambda>_ _. Inr \<lparr>users_items = Some [roster_user ''u1''], users_nextCursor = None\<rparr>)\<rparr>"

text \<open>Rows for the examples: three rows of two users.\<close>

definition blank_change :: "string \<Rightarrow> citizenship_change" where
  "blank_change i =
     \<lparr>change_id = i, change_user = [], createdAt = None, timestamp = None, any_date = None,
      change_payload = None\<rparr>"

definition plain_row :: "string \<Rightarrow> string \<Rightarrow> string \<Rightarrow> js_date \<Rightarrow> flattened_change" where
  "plain_row name uid cid d =
     \<lparr>row_username = name, row_userId = uid, row_change = blank_change cid,
      row_fromCountryId = None, row_toCountryId = None, row_date = d\<rparr>"

definition three_rows :: "flattened_change list" where
  "three_rows = [plain_row ''ann'' ''u1'' ''a1'' (Some 3), plain_row ''bob'' ''u2'' ''b1'' (Some 2),
                 plain_row ''ann'' ''u1'' ''a2'' (Some 1)]"

text \<open>
  Views for the examples. \<open>undated_view\<close> holds three changes of one player, the
  second with an empty creation time and no timestamp. \<open>new_year_view\<close> holds changes
  around the turn of the year 2024, written as local times, with both date filters set
  to 2024-01-01. \<open>two_dates\<close> is a change whose creation time and timestamp differ.
\<close>

definition dated_change :: "string \<Rightarrow> string \<Rightarrow> citizenship_change" where
  "dated_change i s = (blank_change i)\<lparr>createdAt := Some s\<rparr>"

definition player_with :: "citizenship_change list \<Rightarrow> player_data" where
  "player_with changes =
     \<lparr>player_user = \<lparr>user_id = ''u1'', username = ''ann'', lastConnectionAt = None, active = Some True\<rparr>,
      citizenshipChanges = changes, player_loading = False, player_error = None\<rparr>"

definition undated_view :: tracker where
  "undated_view =
     new_tracker\<lparr>players :=
       [player_with [dated_change ''a1'' ''2024-01-01T00:00:00.000Z'', dated_change ''a2'' [],
                     dated_change ''a3'' ''2024-01-02T00:00:00.000Z'']]\<rparr>"

definition new_year_view :: tracker where
  "new_year_view =
     new_tracker\<lparr>players :=
       [player_with [dated_change ''x0'' ''2023-12-31T12:00:00'',
                     dated_change ''x1'' ''2024-01-01T23:00:00'',
                     dated_change ''x2'' ''2024-01-02T00:00:01'']],
       filterStartDate := ''2024-01-01'', filterEndDate := ''2024-01-01''\<rparr>"

definition two_dates :: citizenship_change where
  "two_dates = (blank_change ''a1'')
     \<lparr>createdAt := Some ''2024-01-02T00:00:00.000Z'', timestamp := Some ''2024-01-01T00:00:00.000Z''\<rparr>"

definition row_label :: "flattened_change \<Rightarrow> string \<times> js_date" where
  "row_label r = (change_id (row_change r), row_date r)"

section \<open>Properties of the API client\<close>

lemma requests_axios_get: "requests (axios_get s req) = requests s @ [req]"
  by (simp add: axios_get_def)

lemma cache_axios_get: "countryCache (axios_get s req) = countryCache s"
  by (simp add: axios_get_def)

lemma cache_console_error: "countryCache (console_error s l) = countryCache s"
  by (simp add: console_error_def)

text \<open>
  C1. With no token set (the token is the empty string, as it is initially and after
  \<open>setAuthToken('')\<close>), \<open>getCitizenshipChanges\<close> fails with the plain error
  "Authorization token is required for this operation" and leaves the client as it was:
  no request is made. The failure can be told from a network-level one: a call made
  with a token always makes a request and never fails with that error (a failed request
  surfaces as the transport's error).
\<close>

theorem getCitizenshipChanges_without_token:
  "authToken s = [] \<Longrightarrow>
     getCitizenshipChanges w s userId cursor =
       (Inl (Error ''Authorization token is required for this operation''), s) \<and>
     requests (snd (getCitizenshipChanges w s userId cursor)) = requests s \<and>
     (\<forall>w' s' userId' cursor'. authToken s' \<noteq> [] \<longrightarrow>
        fst (getCitizenshipChanges w' s' userId' cursor') \<noteq>
          Inl (Error ''Authorization token is required for this operation'') \<and>
        requests (snd (getCitizenshipChanges w' s' userId' cursor')) \<noteq> requests s')"
  by (auto simp: getCitizenshipChanges_def Let_def requests_axios_get split: sum.splits)

theorem getCitizenshipChanges_without_token_witness:
  "authToken new_api = [] \<and> authToken (setAuthToken new_api []) = [] \<and>
   getCitizenshipChanges (offline 0 0) (setAuthToken new_api []) ''u1'' [] =
     (Inl (Error ''Authorization token is required for this operation''), setAuthToken new_api []) \<and>
   fst (getCitizenshipChanges (offline 0 0) (setAuthToken new_api ''secret'') ''u1'' []) =
     Inl (AxiosError ''Network Error'')"
  using getCitizenshipChanges_without_token [of "setAuthToken new_api []" "offline 0 0" "''u1''" "[]"]
  by (simp add: new_api_def setAuthToken_def getCitizenshipChanges_def offline_def)

lemma flagUrl_with_flag:
  "flagUrl (with_flag c) =
     (if truthy (country_code c)
      then Some (''https://flagcdn.com/w40/'' @ toLowerCase (the (country_code c)) @ ''.png'')
      else flagUrl c)"
  by (simp add: with_flag_def truthy_def split: option.splits)

text \<open>
  C8. \<open>getCountryById\<close>: a country already in the cache is returned as cached and the
  client is unchanged (no request). On a miss the request is made; when it succeeds the
  country, with the flag URL derived from its code when it has a non-empty one, is stored
  under the requested identifier and returned, and asking again (whatever the world then
  answers) returns the same country with no further request; when it fails the result
  is null, the cache is unchanged and one line is logged.
\<close>

theorem getCountryById_cached_or_fetched:
  "(countryCache s countryId = Some c \<longrightarrow> getCountryById w s countryId = (Some c, s)) \<and>
   (countryCache s countryId = None \<longrightarrow>
      country_reply w (requests s) (buildUrl ''country.getCountryById'' [(''countryId'', JStr countryId)]) = Inr c \<longrightarrow>
        getCountryById w s countryId =
          (Some (with_flag c),
           s\<lparr>requests := requests s @ [buildUrl ''country.getCountryById'' [(''countryId'', JStr countryId)]],
             countryCache := (countryCache s)(countryId \<mapsto> with_flag c)\<rparr>) \<and>
        flagUrl (with_flag c) =
          (if truthy (country_code c)
           then Some (''https://flagcdn.com/w40/'' @ toLowerCase (the (country_code c)) @ ''.png'')
           else flagUrl c) \<and>
        getCountryById w' (snd (getCountryById w s countryId)) countryId =
          (Some (with_flag c), snd (getCountryById w s countryId))) \<and>
   (countryCache s countryId = None \<longrightarrow>
      country_reply w (requests s) (buildUrl ''country.getCountryById'' [(''countryId'', JStr countryId)]) = Inl m \<longrightarrow>
        fst (getCountryById w s countryId) = None \<and>
        countryCache (snd (getCountryById w s countryId)) = countryCache s \<and>
        console (snd (getCountryById w s countryId)) =
          console s @ [''Error fetching country '' @ countryId @ '': '' @ m])"
  by (simp add: getCountryById_def Let_def axios_get_def console_error_def
      flagUrl_with_flag)

lemma with_flag_belgium:
  "with_flag belgium = belgium\<lparr>flagUrl := Some ''https://flagcdn.com/w40/be.png''\<rparr>"
  by code_simp

theorem getCountryById_cached_or_fetched_witness:
  "countryCache new_api ''c1'' = None \<and>
   fst (getCountryById belgium_online new_api ''c1'') =
     Some (belgium\<lparr>flagUrl := Some ''https://flagcdn.com/w40/be.png''\<rparr>) \<and>
   countryCache (snd (getCountryById belgium_online new_api ''c1'')) ''c1'' =
     Some (belgium\<lparr>flagUrl := Some ''https://flagcdn.com/w40/be.png''\<rparr>) \<and>
   getCountryById (offline 0 0) (snd (getCountryById belgium_online new_api ''c1'')) ''c1'' =
     (Some (belgium\<lparr>flagUrl := Some ''https://flagcdn.com/w40/be.png''\<rparr>),
      snd (getCountryById belgium_online new_api ''c1'')) \<and>
   length (requests (snd (getCountryById belgium_online new_api ''c1''))) = 1 \<and>
   fst (getCountryById (offline 0 0) new_api ''c1'') = None \<and>
   countryCache (snd (getCountryById (offline 0 0) new_api ''c1'')) = countryCache new_api"
proof -
  have miss: "countryCache new_api ''c1'' = None"
    by (simp add: new_api_def)
  have ok: "country_reply belgium_online (requests new_api)
              (buildUrl ''country.getCountryById'' [(''countryId'', JStr ''c1'')]) = Inr belgium"
    by (simp add: belgium_online_def offline_def)
  have bad: "country_reply (offline 0 0) (requests new_api)
              (buildUrl ''country.getCountryById'' [(''countryId'', JStr ''c1'')]) = Inl ''Network Error''"
    by (simp add: offline_def)
  note fetched = getCountryById_cached_or_fetched
    [of new_api "''c1''" belgium belgium_online "offline 0 0" "''Network Error''",
      THEN conjunct2, THEN conjunct1, rule_format, OF miss ok]
  note failed = getCountryById_cached_or_fetched
    [of new_api "''c1''" belgium "offline 0 0" "offline 0 0" "''Network Error''",
      THEN conjunct2, THEN conjunct2, rule_format, OF miss bad]
  have reqs: "requests new_api = []"
    by (simp add: new_api_def)
  have a: "fst (getCountryById belgium_online new_api ''c1'') =
       Some (belgium\<lparr>flagUrl := Some ''https://flagcdn.com/w40/be.png''\<rparr>)"
    using fetched [THEN conjunct1] by (simp add: with_flag_belgium)
  have b: "countryCache (snd (getCountryById belgium_online new_api ''c1'')) ''c1'' =
       Some (belgium\<lparr>flagUrl := Some ''https://flagcdn.com/w40/be.png''\<rparr>)"
    using fetched [THEN conjunct1] by (simp add: with_flag_belgium)
  have c: "getCountryById (offline 0 0) (snd (getCountryById belgium_online new_api ''c1'')) ''c1'' =
     (Some (belgium\<lparr>flagUrl := Some ''https://flagcdn.com/w40/be.png''\<rparr>),
      snd (getCountryById belgium_online new_api ''c1''))"
    using fetched [THEN conjunct2, THEN conjunct2] by (simp only: with_flag_belgium)
  have d: "length (requests (snd (getCountryById belgium_online new_api ''c1''))) = 1"
    using fetched [THEN conjunct1] by (simp add: reqs)
  from a b c d failed miss show ?thesis
    by simp
qed

lemma getCountryById_halves:
  "getCountryById w s countryId =
     (case getCountryById_call s countryId of
        (Some c, s') \<Rightarrow> (Some c, s')
      | (None, s1) \<Rightarrow>
          getCountryById_resume s1 countryId
            (country_reply w (requests s) (buildUrl ''country.getCountryById'' [(''countryId'', JStr countryId)])))"
  by (simp add: getCountryById_def getCountryById_call_def getCountryById_resume_def Let_def
      cache_axios_get split: option.splits sum.splits)

lemma getAllCountries_halves:
  "getAllCountries w s =
     getAllCountries_resume (getAllCountries_call s)
       (countries_reply w (requests s) (buildUrl ''country.getAllCountries'' []))"
  by (simp add: getAllCountries_def getAllCountries_call_def getAllCountries_resume_def Let_def
      split: sum.splits)

lemma find_snoc:
  "find P (xs @ [x]) = (case find P xs of None \<Rightarrow> (if P x then Some x else None) | Some y \<Rightarrow> Some y)"
  by (induction xs) auto

lemma find_rev_Cons:
  "find P (rev (x # xs)) = (case find P (rev xs) of None \<Rightarrow> (if P x then Some x else None) | Some y \<Rightarrow> Some y)"
  by (simp add: find_snoc)

lemma cache_cache_all:
  "countryCache (cache_all s cs) k =
     (case find (\<lambda>c. country_id c = k) (rev cs) of
        None \<Rightarrow> countryCache s k
      | Some c \<Rightarrow> Some (with_flag c))"
proof (induction cs arbitrary: s)
  case Nil
  show ?case by simp
next
  case (Cons c cs)
  show ?case
    by (simp add: Cons.IH find_rev_Cons del: rev.simps split: option.splits)
qed

lemma find_None_image: "k \<notin> f ` set xs \<Longrightarrow> find (\<lambda>c. f c = k) (rev xs) = None"
  by (auto simp: find_None_iff)

lemma cache_after_event_other:
  assumes "\<not> may_store e k"
  shows "countryCache (after_event w s e) k = countryCache s k"
proof (cases e)
  case (CountryCalled countryId)
  then show ?thesis
    by (simp add: getCountryById_call_def cache_axios_get split: option.splits)
next
  case (CountryResumed countryId reply)
  with assms show ?thesis
    by (cases reply) (auto simp: getCountryById_resume_def cache_console_error)
next
  case (CountriesResumed reply)
  with assms show ?thesis
    by (cases reply)
       (auto simp: getAllCountries_resume_def cache_console_error cache_cache_all find_None_image)
qed (simp_all add: setAuthToken_def getAllCountries_call_def cache_axios_get
      getUsersByCountry_def getUserLite_def getCitizenshipChanges_def Let_def axios_get_def
      split: sum.splits)

lemma dom_cache_after_event: "dom (countryCache s) \<subseteq> dom (countryCache (after_event w s e))"
proof
  fix k assume k: "k \<in> dom (countryCache s)"
  show "k \<in> dom (countryCache (after_event w s e))"
  proof (cases "may_store e k")
    case False
    then show ?thesis using k by (simp add: cache_after_event_other dom_def)
  next
    case True
    then show ?thesis
    proof (cases e)
      case (CountryResumed countryId reply)
      with True show ?thesis
        by (cases reply) (auto simp: getCountryById_resume_def)
    next
      case (CountriesResumed reply)
      with True show ?thesis
        by (cases reply)
           (auto simp: getAllCountries_resume_def cache_cache_all find_None_iff split: option.splits)
    qed simp_all
  qed
qed

lemma dom_cache_after_events: "dom (countryCache s) \<subseteq> dom (countryCache (after_events w s es))"
proof (induction es arbitrary: s)
  case Nil
  show ?case by simp
next
  case (Cons e es)
  show ?case
    using dom_cache_after_event [of s w e] Cons.IH [of "after_event w s e"] by simp
qed

lemma cache_after_events_other:
  "\<forall>e \<in> set es. \<not> may_store e k \<Longrightarrow> countryCache (after_events w s es) k = countryCache s k"
  by (induction es arbitrary: s) (simp_all add: cache_after_event_other)

text \<open>
  C9, as stated, fails: an entry already in the cache can be replaced. \<open>getAllCountries\<close>
  stores every country of its answer under its identifier, whether or not the cache
  holds that identifier already: after \<open>getCountryById('c1')\<close> cached the name "Belgium",
  a country list naming \<open>c1\<close> "Belgique" replaces the cached attributes. And the
  continuation of \<open>getCountryById\<close> stores what it fetched without looking at the cache
  again: when two calls for \<open>c1\<close> are both suspended at their requests (both found the
  cache empty), the second to resume replaces the entry the first has stored.
\<close>

theorem cached_country_replaced:
  "map_option country_name (getCountryFromCache (snd (getCountryById renamed new_api ''c1'')) ''c1'') =
     Some ''Belgium'' \<and>
   map_option country_name
     (getCountryFromCache (snd (getAllCountries renamed (snd (getCountryById renamed new_api ''c1'')))) ''c1'') =
     Some ''Belgique'' \<and>
   fst (getCountryById_call new_api ''c1'') = None \<and>
   fst (getCountryById_call (after_events (offline 0 0) new_api [CountryCalled ''c1'']) ''c1'') = None \<and>
   map_option country_name
     (getCountryFromCache
        (after_events (offline 0 0) new_api
           [CountryCalled ''c1'', CountryCalled ''c1'', CountryResumed ''c1'' (Inr belgium)]) ''c1'') =
     Some ''Belgium'' \<and>
   map_option country_name
     (getCountryFromCache
        (after_events (offline 0 0) new_api
           [CountryCalled ''c1'', CountryCalled ''c1'', CountryResumed ''c1'' (Inr belgium),
            CountryResumed ''c1'' (Inr belgique)]) ''c1'') =
     Some ''Belgique''"
  by (simp add: getCountryFromCache_def renamed_def offline_def new_api_def getCountryById_def
      getAllCountries_def Let_def axios_get_def with_flag_def buildUrl_def
      getCountryById_call_def getCountryById_resume_def belgium_def belgique_def)

text \<open>
  C9, amended. However the halves of the client's operations interleave, no event
  removes a key from the country cache, and the entry of an identifier is left as it is
  by every event that does not assign to it (\<open>may_store\<close>): only the continuation of a
  \<open>getCountryById\<close> for that identifier whose request succeeded, and the continuation of
  a \<open>getAllCountries\<close> whose answer contains that identifier, assign to it. The
  continuation of \<open>getAllCountries\<close> stores each country of a successful answer, with
  its flag URL, under the country's identifier (the last one when the answer repeats an
  identifier) and keeps every other entry; after a failed request it leaves the cache
  unchanged. The operations as written are their halves run back to back.
\<close>

theorem country_cache_growth:
  "dom (countryCache s) \<subseteq> dom (countryCache (after_events w s es)) \<and>
   ((\<forall>e \<in> set es. \<not> may_store e k) \<longrightarrow>
      countryCache (after_events w s es) k = countryCache s k) \<and>
   countryCache (snd (getAllCountries_resume s (Inr cs))) k =
     (case find (\<lambda>c. country_id c = k) (rev cs) of
        None \<Rightarrow> countryCache s k
      | Some c \<Rightarrow> Some (with_flag c)) \<and>
   countryCache (snd (getAllCountries_resume s (Inl m))) = countryCache s \<and>
   getCountryById w s countryId =
     (case getCountryById_call s countryId of
        (Some c, s') \<Rightarrow> (Some c, s')
      | (None, s1) \<Rightarrow>
          getCountryById_resume s1 countryId
            (country_reply w (requests s) (buildUrl ''country.getCountryById'' [(''countryId'', JStr countryId)]))) \<and>
   getAllCountries w s =
     getAllCountries_resume (getAllCountries_call s)
       (countries_reply w (requests s) (buildUrl ''country.getAllCountries'' []))"
proof -
  have "countryCache (snd (getAllCountries_resume s (Inr cs))) k =
     (case find (\<lambda>c. country_id c = k) (rev cs) of
        None \<Rightarrow> countryCache s k
      | Some c \<Rightarrow> Some (with_flag c))"
    by (simp add: getAllCountries_resume_def cache_cache_all)
  moreover have "countryCache (snd (getAllCountries_resume s (Inl m))) = countryCache s"
    by (simp add: getAllCountries_resume_def cache_console_error)
  ultimately show ?thesis
    using dom_cache_after_events [of s w es] cache_after_events_other [of es k w s]
      getCountryById_halves [of w s countryId] getAllCountries_halves [of w s]
    by blast
qed

theorem country_cache_growth_witness:
  "''c1'' \<in> dom (countryCache
      (after_events (offline 0 0) new_api
         [CountryCalled ''c1'', CountryResumed ''c1'' (Inr belgium), CountriesCalled,
          CountriesResumed (Inr [belgique])])) \<and>
   map_option country_name
     (countryCache
        (after_events (offline 0 0)
           (after_events (offline 0 0) new_api [CountryCalled ''c1'', CountryResumed ''c1'' (Inr belgium)])
           [SetAuthToken ''t'', CountryCalled ''c1'', GetCitizenshipChanges ''u'' [], GetUserLite ''u'',
            CountriesCalled, CountriesResumed (Inl ''Network Error''),
            CountryResumed ''c2'' (Inr belgique)]) ''c1'') = Some ''Belgium'' \<and>
   map_option country_name
     (countryCache
        (snd (getAllCountries_resume
           (after_events (offline 0 0) new_api [CountryCalled ''c1'', CountryResumed ''c1'' (Inr belgium)])
           (Inr [belgique]))) ''c1'') = Some ''Belgique''"
proof -
  let ?s1 = "after_events (offline 0 0) new_api [CountryCalled ''c1'', CountryResumed ''c1'' (Inr belgium)]"
  let ?es = "[SetAuthToken ''t'', CountryCalled ''c1'', GetCitizenshipChanges ''u'' [], GetUserLite ''u'',
            CountriesCalled, CountriesResumed (Inl ''Network Error''),
            CountryResumed ''c2'' (Inr belgique)]"
  have c1: "countryCache ?s1 ''c1'' = Some (with_flag belgium)"
    by (simp add: new_api_def getCountryById_call_def getCountryById_resume_def axios_get_def)
  have name: "country_name (with_flag belgium) = ''Belgium''"
    by (simp add: with_flag_def belgium_def)
  have quiet: "\<forall>e \<in> set ?es. \<not> may_store e ''c1''"
    by simp
  note grows = country_cache_growth [of ?s1 "offline 0 0"
      "[CountriesCalled, CountriesResumed (Inr [belgique])]", THEN conjunct1]
  note kept = country_cache_growth [of ?s1 "offline 0 0" ?es "''c1''",
      THEN conjunct2, THEN conjunct1, THEN mp, OF quiet]
  note stored = country_cache_growth [of ?s1 "offline 0 0" "[]" "''c1''" "[belgique]",
      THEN conjunct2, THEN conjunct2, THEN conjunct1]
  have a: "''c1'' \<in> dom (countryCache
      (after_events (offline 0 0) new_api
         [CountryCalled ''c1'', CountryResumed ''c1'' (Inr belgium), CountriesCalled,
          CountriesResumed (Inr [belgique])]))"
    using grows c1 by (auto simp: dom_def)
  have b: "map_option country_name (countryCache (after_events (offline 0 0) ?s1 ?es) ''c1'') =
      Some ''Belgium''"
    using kept c1 name by simp
  have c: "map_option country_name
     (countryCache (snd (getAllCountries_resume ?s1 (Inr [belgique]))) ''c1'') = Some ''Belgique''"
    using stored by (simp add: belgique_def with_flag_def)
  from a b c show ?thesis by blast
qed








section \<open>Properties of the batch fetch\<close>

lemma counters_begin_user:
  "progress_current (begin_user v) = progress_current v + 1"
  "progress_total (begin_user v) = progress_total v"
  "stats_total (begin_user v) = stats_total v"
  "stats_active (begin_user v) = stats_active v"
  "stats_inactive (begin_user v) = stats_inactive v"
  "api (begin_user v) = api v"
  "players (begin_user v) = players v"
  "error (begin_user v) = error v"
  by (simp_all add: begin_user_def)

lemma counters_classify_user:
  "progress_current (fst (classify_user w v u)) = progress_current v"
  "progress_total (fst (classify_user w v u)) = progress_total v"
  "stats_total (fst (classify_user w v u)) = stats_total v"
  "stats_active (fst (classify_user w v u)) + stats_inactive (fst (classify_user w v u))
     \<le> stats_active v + stats_inactive v + 1"
  "error (fst (classify_user w v u)) = error v"
  by (simp_all add: classify_user_def split: prod.splits sum.splits)

lemma counters_load_changes:
  "progress_current (load_changes w v u) = progress_current v"
  "progress_total (load_changes w v u) = progress_total v"
  "stats_total (load_changes w v u) = stats_total v"
  "stats_active (load_changes w v u) = stats_active v"
  "stats_inactive (load_changes w v u) = stats_inactive v"
  "error (load_changes w v u) = error v"
  by (simp_all add: load_changes_def split: prod.splits sum.splits)

lemma process_user_cases:
  "process_user w v u = fst (classify_user w (begin_user v) u) \<or>
   process_user w v u = load_changes w (fst (classify_user w (begin_user v) u)) u"
  by (simp add: process_user_def split: prod.splits bool.splits)

lemma counters_process_user:
  "progress_current (process_user w v u) = progress_current v + 1"
  "progress_total (process_user w v u) = progress_total v"
  "stats_total (process_user w v u) = stats_total v"
  "stats_active (process_user w v u) + stats_inactive (process_user w v u)
     \<le> stats_active v + stats_inactive v + 1"
  "error (process_user w v u) = error v"
  using process_user_cases [of w v u] counters_classify_user [of w "begin_user v" u]
  by (auto simp: counters_load_changes counters_begin_user)

lemma loop_inv_process_user: "loop_inv v (Suc n) \<Longrightarrow> loop_inv (process_user w v u) n"
  using counters_process_user [of w v u] by (simp add: loop_inv_def)

lemma loop_inv_counters_ok: "loop_inv v n \<Longrightarrow> counters_ok v"
  by (simp add: loop_inv_def counters_ok_def)

lemma turn_states_ok:
  assumes "loop_inv v (Suc n)" and "st \<in> set (turn_states w v u)"
  shows "counters_ok st"
proof -
  have "st = begin_user v \<or> st = fst (classify_user w (begin_user v) u)"
    using assms(2)
    by (cases "classify_user w (begin_user v) u") (auto simp: turn_states_def split: bool.splits)
  then show ?thesis
    using assms(1) counters_classify_user [of w "begin_user v" u]
    by (auto simp: counters_ok_def loop_inv_def counters_begin_user)
qed

lemma loop_states_ok:
  "loop_inv v (length us) \<Longrightarrow> st \<in> set (loop_states w v us) \<Longrightarrow> counters_ok st"
proof (induction us arbitrary: v)
  case Nil
  then show ?case by simp
next
  case (Cons u us)
  from Cons.prems(2) consider "st \<in> set (turn_states w v u)"
    | "st \<in> set (loop_states w (process_user w v u) us)"
    by auto
  then show ?case
  proof cases
    case 1
    with Cons.prems(1) show ?thesis by (auto intro: turn_states_ok)
  next
    case 2
    from Cons.prems(1) have "loop_inv (process_user w v u) (length us)"
      by (simp add: loop_inv_process_user)
    with 2 show ?thesis by (rule Cons.IH [rotated])
  qed
qed

lemma loop_inv_process_users:
  "loop_inv v (length us) \<Longrightarrow> loop_inv (process_users w v us) 0"
  by (induction us arbitrary: v) (simp_all add: loop_inv_process_user)



lemma counters_ok_reset: "counters_ok (reset_view v)"
  by (simp add: counters_ok_def reset_view_def)

lemma loop_inv_roster_loaded: "loop_inv (roster_loaded (reset_view v) a us) (length us)"
  by (simp add: loop_inv_def roster_loaded_def reset_view_def)

lemma counters_ok_fields:
  "progress_current v' = progress_current v \<Longrightarrow> progress_total v' = progress_total v \<Longrightarrow>
   stats_total v' = stats_total v \<Longrightarrow> stats_active v' = stats_active v \<Longrightarrow>
   stats_inactive v' = stats_inactive v \<Longrightarrow> counters_ok v \<Longrightarrow> counters_ok v'"
  by (simp add: counters_ok_def)

lemma fetch_final_ok:
  assumes "counters_ok v"
  shows "counters_ok (fetchPlayersAndChanges w v)"
proof (cases "selectedCountryId v = [] \<or> view_authToken v = []")
  case True
  then show ?thesis
    using assms by (auto simp: fetchPlayersAndChanges_def counters_ok_def)
next
  case False
  obtain r a where g: "getUsersByCountry w (api (reset_view v)) (selectedCountryId (reset_view v)) [] 100 = (r, a)"
    by (cases "getUsersByCountry w (api (reset_view v)) (selectedCountryId (reset_view v)) [] 100")
  show ?thesis
  proof (cases r)
    case (Inl err)
    with False g show ?thesis
      using counters_ok_reset [of v]
      by (simp add: fetchPlayersAndChanges_def counters_ok_def)
  next
    case (Inr resp)
    let ?us = "case users_items resp of None \<Rightarrow> [] | Some xs \<Rightarrow> xs"
    have "loop_inv (process_users w (roster_loaded (reset_view v) a ?us) ?us) 0"
      by (rule loop_inv_process_users [OF loop_inv_roster_loaded])
    then have "counters_ok ((process_users w (roster_loaded (reset_view v) a ?us) ?us)\<lparr>loading := False\<rparr>)"
      by (simp add: loop_inv_def counters_ok_def)
    with False g Inr show ?thesis
      by (simp add: fetchPlayersAndChanges_def Let_def)
  qed
qed

lemma fetch_states_ok:
  assumes "counters_ok v" and "st \<in> set (fetch_states w v)"
  shows "counters_ok st"
proof (cases "selectedCountryId v = [] \<or> view_authToken v = []")
  case True
  with assms(2) have "st = fetchPlayersAndChanges w v"
    by (simp add: fetch_states_def)
  then show ?thesis using assms(1) by (simp add: fetch_final_ok)
next
  case False
  obtain r a where g: "getUsersByCountry w (api (reset_view v)) (selectedCountryId v) [] 100 = (r, a)"
    by (cases "getUsersByCountry w (api (reset_view v)) (selectedCountryId v) [] 100")
  show ?thesis
  proof (cases r)
    case (Inl err)
    with False g assms(2) have "st = reset_view v \<or> st = fetchPlayersAndChanges w v"
      by (auto simp: fetch_states_def)
    then show ?thesis
      using assms(1) by (auto simp: counters_ok_reset fetch_final_ok)
  next
    case (Inr resp)
    let ?us = "case users_items resp of None \<Rightarrow> [] | Some xs \<Rightarrow> xs"
    from False g Inr assms(2) have
      "st = reset_view v \<or> st \<in> set (loop_states w (roster_loaded (reset_view v) a ?us) ?us) \<or>
       st = fetchPlayersAndChanges w v"
      by (auto simp: fetch_states_def Let_def)
    then show ?thesis
      using assms(1) loop_states_ok [OF loop_inv_roster_loaded]
      by (auto simp: counters_ok_reset fetch_final_ok)
  qed
qed

lemma lite_failure_counts:
  assumes "fst (getUserLite w (api v) (user_id u)) = Inl e"
  shows "progress_current (process_user w v u) = progress_current v + 1 \<and>
         stats_active (process_user w v u) = stats_active v \<and>
         stats_inactive (process_user w v u) = stats_inactive v"
  using assms
  by (cases "getUserLite w (api v) (user_id u)")
     (simp add: process_user_def classify_user_def begin_user_def)














lemma ready_fields:
  "selectedCountryId ready = ''c1''" "view_authToken ready = ''secret''"
  "requests (api ready) = []" "authToken (api ready) = ''secret''" "players ready = []"
  "console (api ready) = []" "counters_ok ready"
  by (simp_all add: ready_def handleAuthTokenChange_def new_tracker_def new_api_def
      setAuthToken_def counters_ok_def)






text \<open>
  C10. Started from a view whose counters satisfy it (as the initial ones do), every
  state an observer can see during and after \<open>fetchPlayersAndChanges\<close> satisfies
  \<open>stats.active + stats.inactive \<le> progress.current \<le> progress.total = stats.total\<close>.
  A turn of the loop whose user lookup fails adds one to \<open>progress.current\<close> and leaves
  both tallies as they were, so the tallies can fall short of the total.
\<close>

theorem batch_counters:
  "(counters_ok v \<longrightarrow> (\<forall>st \<in> set (fetch_states w v). counters_ok st)) \<and>
   (\<forall>e. fst (getUserLite w (api v) (user_id u)) = Inl e \<longrightarrow>
      progress_current (process_user w v u) = progress_current v + 1 \<and>
      stats_active (process_user w v u) = stats_active v \<and>
      stats_inactive (process_user w v u) = stats_inactive v)"
  using fetch_states_ok [of v _ w] lite_failure_counts [of w v u] by blast

theorem batch_counters_witness:
  "counters_ok ready \<and>
   list_all counters_ok (fetch_states roster_world ready) \<and>
   stats_total (fetchPlayersAndChanges lonely_world ready) = 1 \<and>
   progress_current (fetchPlayersAndChanges lonely_world ready) = 1 \<and>
   stats_active (fetchPlayersAndChanges lonely_world ready) = 0 \<and>
   stats_inactive (fetchPlayersAndChanges lonely_world ready) = 0"
proof -
  let ?v = "roster_loaded (reset_view ready)
      (axios_get (api ready)
         (buildUrl ''user.getUsersByCountry'' [(''countryId'', JStr ''c1''), (''cursor'', JStr []), (''limit'', JNum 100)]))
      [roster_user ''u1'']"
  have all: "list_all counters_ok (fetch_states roster_world ready)"
    using batch_counters [of ready roster_world "roster_user ''u1''", THEN conjunct1]
    by (simp add: ready_fields list_all_iff)
  have f: "fetchPlayersAndChanges lonely_world ready = (process_user lonely_world ?v (roster_user ''u1''))\<lparr>loading := False\<rparr>"
    by (simp add: fetchPlayersAndChanges_def ready_fields getUsersByCountry_def Let_def
        lonely_world_def offline_def reset_view_def)
  have l: "fst (getUserLite lonely_world (api ?v) (user_id (roster_user ''u1''))) = Inl (AxiosError ''Network Error'')"
    by (simp add: getUserLite_def lonely_world_def offline_def Let_def)
  note failed = batch_counters [of ?v lonely_world "roster_user ''u1''", THEN conjunct2, rule_format, OF l]
  have v: "progress_current ?v = 0" "stats_active ?v = 0" "stats_inactive ?v = 0" "stats_total ?v = 1"
    by (simp_all add: roster_loaded_def reset_view_def)
  have t: "stats_total (process_user lonely_world ?v (roster_user ''u1'')) = 1"
    by (simp add: counters_process_user v)
  from all failed t show ?thesis
    by (simp add: f v ready_fields)
qed

section \<open>Properties of the tracker view\<close>

lemma set_first_seen: "set (first_seen xs) = set xs"
  by (induction xs) auto

lemma distinct_first_seen: "distinct (first_seen xs)"
  by (induction xs) (auto simp: set_first_seen)

lemma first_seen_snoc:
  "first_seen (xs @ [x]) = (if x \<in> set xs then first_seen xs else first_seen xs @ [x])"
proof (induction xs)
  case Nil
  show ?case by simp
next
  case (Cons a xs)
  show ?case
  proof (cases "x = a")
    case True
    have "filter (\<lambda>y. y \<noteq> a) (first_seen xs @ [a]) = filter (\<lambda>y. y \<noteq> a) (first_seen xs)"
      by simp
    with True Cons.IH show ?thesis by (simp split: if_splits)
  next
    case False
    with Cons.IH show ?thesis by simp
  qed
qed

lemma map_has_grouped: "map_has (grouped rows) name \<longleftrightarrow> name \<in> row_username ` set rows"
  by (simp add: map_has_def grouped_def comp_def set_first_seen)

lemma rows_of_snoc:
  "rows_of name (rows @ [row]) = (if row_username row = name then rows_of name rows @ [row] else rows_of name rows)"
  by (simp add: rows_of_def)

lemma map_push_grouped:
  "map_push (map (\<lambda>name. (name, rows_of name rows)) names) (row_username row) row =
   map (\<lambda>name. (name, rows_of name (rows @ [row]))) names"
  by (induction names) (auto simp: map_push_def rows_of_snoc)

lemma rows_of_absent: "name \<notin> row_username ` set rows \<Longrightarrow> rows_of name rows = []"
  by (auto simp: rows_of_def filter_empty_conv)

lemma group_step_grouped: "group_step (grouped rows) row = grouped (rows @ [row])"
proof (cases "row_username row \<in> row_username ` set rows")
  case True
  then have "group_step (grouped rows) row = map_push (grouped rows) (row_username row) row"
    by (simp add: group_step_def map_has_grouped)
  also have "\<dots> = map (\<lambda>name. (name, rows_of name (rows @ [row]))) (first_seen (map row_username rows))"
    unfolding grouped_def by (rule map_push_grouped)
  also have "\<dots> = grouped (rows @ [row])"
    using True by (simp add: grouped_def first_seen_snoc)
  finally show ?thesis .
next
  case False
  let ?names = "first_seen (map row_username rows) @ [row_username row]"
  have ext: "grouped rows @ [(row_username row, [])] = map (\<lambda>name. (name, rows_of name rows)) ?names"
    using False by (simp add: grouped_def rows_of_absent)
  have "group_step (grouped rows) row =
      map_push (grouped rows @ [(row_username row, [])]) (row_username row) row"
    using False by (simp add: group_step_def map_has_grouped)
  also have "\<dots> = map_push (map (\<lambda>name. (name, rows_of name rows)) ?names) (row_username row) row"
    by (simp only: ext)
  also have "\<dots> = map (\<lambda>name. (name, rows_of name (rows @ [row]))) ?names"
    by (rule map_push_grouped)
  also have "\<dots> = grouped (rows @ [row])"
    using False by (simp add: grouped_def first_seen_snoc)
  finally show ?thesis .
qed

lemma foldl_group_step: "foldl group_step [] rows = grouped rows"
proof (induction rows rule: rev_induct)
  case Nil
  show ?case by (simp add: grouped_def)
next
  case (snoc row rows)
  then show ?case by (simp add: group_step_grouped)
qed

lemma group_rows_eq:
  "group_rows rows =
     map (\<lambda>name. \<lparr>group_username = name, group_userId = row_userId (hd (rows_of name rows)),
                   group_changes = rows_of name rows\<rparr>)
         (first_seen (map row_username rows))"
  by (simp add: group_rows_def foldl_group_step grouped_def comp_def)

lemma length_rows_of_sum:
  "sum_list (map (\<lambda>name. length (rows_of name rows)) (first_seen (map row_username rows))) = length rows"
proof (induction rows rule: rev_induct)
  case Nil
  show ?case by simp
next
  case (snoc row rows)
  let ?names = "first_seen (map row_username rows)"
  have step: "distinct names \<Longrightarrow>
      sum_list (map (\<lambda>name. length (rows_of name (rows @ [row]))) names) =
      sum_list (map (\<lambda>name. length (rows_of name rows)) names) +
        (if row_username row \<in> set names then 1 else 0)" for names
    by (induction names) (auto simp: rows_of_snoc)
  show ?case
  proof (cases "row_username row \<in> row_username ` set rows")
    case True
    then show ?thesis
      using step [OF distinct_first_seen, of "map row_username rows"] snoc.IH
      by (simp add: first_seen_snoc set_first_seen)
  next
    case False
    then show ?thesis
      using step [OF distinct_first_seen, of "map row_username rows"] snoc.IH
      by (simp add: first_seen_snoc set_first_seen rows_of_snoc rows_of_absent)
  qed
qed

lemma find_rows_of:
  "name \<in> row_username ` set rows \<Longrightarrow>
   find (\<lambda>row. row_username row = name) rows = Some (hd (rows_of name rows))"
  by (induction rows) (auto simp: rows_of_def)

text \<open>
  C5. Grouping yields one group per distinct user name, in the order the names first
  appear among the rows; the sizes of the groups add up to the number of rows; each
  group holds exactly the rows bearing its user name, in their order among the rows; and
  each group's user identifier is that of the first row bearing its name.
  \<open>groupedChanges\<close> groups the filtered, sorted rows.
\<close>

theorem groupedChanges_partition:
  "map group_username (group_rows rows) = first_seen (map row_username rows) \<and>
   distinct (map group_username (group_rows rows)) \<and>
   sum_list (map (\<lambda>g. length (group_changes g)) (group_rows rows)) = length rows \<and>
   (\<forall>g \<in> set (group_rows rows).
      group_changes g = filter (\<lambda>row. row_username row = group_username g) rows \<and>
      (\<exists>row. find (\<lambda>row. row_username row = group_username g) rows = Some row \<and>
             group_userId g = row_userId row)) \<and>
   groupedChanges w v = group_rows (filteredChanges w v)"
proof -
  have names: "map group_username (group_rows rows) = first_seen (map row_username rows)"
    by (simp add: group_rows_eq comp_def)
  have total: "sum_list (map (\<lambda>g. length (group_changes g)) (group_rows rows)) = length rows"
    using length_rows_of_sum [of rows] by (simp add: group_rows_eq comp_def)
  have each: "group_changes g = filter (\<lambda>row. row_username row = group_username g) rows \<and>
      (\<exists>row. find (\<lambda>row. row_username row = group_username g) rows = Some row \<and>
             group_userId g = row_userId row)" if "g \<in> set (group_rows rows)" for g
  proof -
    from that obtain name where n: "name \<in> row_username ` set rows"
      and g: "g = \<lparr>group_username = name, group_userId = row_userId (hd (rows_of name rows)),
                   group_changes = rows_of name rows\<rparr>"
      by (auto simp: group_rows_eq set_first_seen)
    from g have "group_changes g = filter (\<lambda>row. row_username row = group_username g) rows"
      by (simp add: rows_of_def)
    moreover from g find_rows_of [OF n]
    have "find (\<lambda>row. row_username row = group_username g) rows = Some (hd (rows_of name rows)) \<and>
          group_userId g = row_userId (hd (rows_of name rows))"
      by simp
    ultimately show ?thesis by blast
  qed
  show ?thesis
    using names total each by (simp add: distinct_first_seen groupedChanges_def)
qed

theorem groupedChanges_partition_witness:
  "map group_username (group_rows three_rows) = [''ann'', ''bob''] \<and>
   sum_list (map (\<lambda>g. length (group_changes g)) (group_rows three_rows)) = 3 \<and>
   list_all (\<lambda>g. group_changes g = filter (\<lambda>row. row_username row = group_username g) three_rows)
     (group_rows three_rows) \<and>
   map (\<lambda>g. map (\<lambda>r. change_id (row_change r)) (group_changes g)) (group_rows three_rows) =
     [[''a1'', ''a2''], [''b1'']] \<and>
   map group_userId (group_rows three_rows) = [''u1'', ''u2'']"
proof -
  note t = groupedChanges_partition [of three_rows "offline 0 0" new_tracker]
  have names: "first_seen (map row_username three_rows) = [''ann'', ''bob'']"
    by (simp add: three_rows_def plain_row_def)
  have a: "map group_username (group_rows three_rows) = [''ann'', ''bob'']"
    using t [THEN conjunct1] names by simp
  have b: "sum_list (map (\<lambda>g. length (group_changes g)) (group_rows three_rows)) = 3"
    using t [THEN conjunct2, THEN conjunct2, THEN conjunct1] by (simp add: three_rows_def)
  have c: "list_all (\<lambda>g. group_changes g = filter (\<lambda>row. row_username row = group_username g) three_rows)
     (group_rows three_rows)"
    using t [THEN conjunct2, THEN conjunct2, THEN conjunct2, THEN conjunct1]
    by (simp add: list_all_iff)
  have g: "group_rows three_rows =
     [\<lparr>group_username = ''ann'', group_userId = ''u1'',
       group_changes = [plain_row ''ann'' ''u1'' ''a1'' (Some 3), plain_row ''ann'' ''u1'' ''a2'' (Some 1)]\<rparr>,
      \<lparr>group_username = ''bob'', group_userId = ''u2'',
       group_changes = [plain_row ''bob'' ''u2'' ''b1'' (Some 2)]\<rparr>]"
    by (simp add: group_rows_def three_rows_def group_step_def map_has_def map_push_def plain_row_def)
  have d: "map (\<lambda>g. map (\<lambda>r. change_id (row_change r)) (group_changes g)) (group_rows three_rows) =
     [[''a1'', ''a2''], [''b1'']]"
    by (simp add: g plain_row_def blank_change_def)
  have e: "map group_userId (group_rows three_rows) = [''u1'', ''u2'']"
    by (simp add: g)
  from a b c d e show ?thesis by simp
qed

lemma set_sort_insert: "set (sort_insert cmp x acc) = insert x (set acc)"
  by (induction acc) auto

lemma mset_sort_insert: "mset (sort_insert cmp x acc) = add_mset x (mset acc)"
  by (induction acc) auto

lemma mset_foldl_sort_insert:
  "mset (foldl (\<lambda>acc x. sort_insert cmp x acc) acc xs) = mset acc + mset xs"
  by (induction xs arbitrary: acc) (simp_all add: mset_sort_insert)

lemma mset_js_sort: "mset (js_sort cmp xs) = mset xs"
  by (simp add: js_sort_def mset_foldl_sort_insert)

lemma sort_insert_cong:
  "(\<And>y. y \<in> set acc \<Longrightarrow> (0 < cmp y x) = (0 < cmp' y x)) \<Longrightarrow>
   sort_insert cmp x acc = sort_insert cmp' x acc"
  by (induction acc) auto

lemma foldl_sort_insert_cong:
  assumes "\<And>a b. a \<in> set acc \<union> set xs \<Longrightarrow> b \<in> set acc \<union> set xs \<Longrightarrow> (0 < cmp a b) = (0 < cmp' a b)"
  shows "foldl (\<lambda>acc x. sort_insert cmp x acc) acc xs = foldl (\<lambda>acc x. sort_insert cmp' x acc) acc xs"
  using assms
proof (induction xs arbitrary: acc)
  case Nil
  show ?case by simp
next
  case (Cons x xs)
  have "sort_insert cmp x acc = sort_insert cmp' x acc"
    by (rule sort_insert_cong) (simp add: Cons.prems)
  moreover have "foldl (\<lambda>acc x. sort_insert cmp x acc) (sort_insert cmp' x acc) xs =
                 foldl (\<lambda>acc x. sort_insert cmp' x acc) (sort_insert cmp' x acc) xs"
    by (rule Cons.IH) (auto simp: set_sort_insert Cons.prems)
  ultimately show ?case by simp
qed

lemma js_sort_cong:
  "(\<And>a b. a \<in> set xs \<Longrightarrow> b \<in> set xs \<Longrightarrow> (0 < cmp a b) = (0 < cmp' a b)) \<Longrightarrow>
   js_sort cmp xs = js_sort cmp' xs"
  using foldl_sort_insert_cong [of "[]" xs cmp cmp'] by (simp add: js_sort_def)

text \<open>A comparator that orders by a key.\<close>

lemma filter_sort_insert:
  "filter (\<lambda>y. f k = f y) (sort_insert (\<lambda>a b. f a - f b) x acc) = filter (\<lambda>y. f k = f y) (x # acc)"
  for f :: "'a \<Rightarrow> int"
  by (induction acc) auto

lemma filter_foldl_sort_insert:
  "filter (\<lambda>y. f k = f y) (foldl (\<lambda>acc x. sort_insert (\<lambda>a b. f a - f b) x acc) acc xs) =
   filter (\<lambda>y. f k = f y) (rev xs @ acc)"
  for f :: "'a \<Rightarrow> int"
proof (induction xs arbitrary: acc)
  case Nil
  show ?case by simp
next
  case (Cons x xs)
  show ?case
    using filter_sort_insert [of f k x acc] by (simp add: Cons.IH)
qed

lemma sorted_sort_insert:
  "sorted_wrt (\<lambda>a b. f b \<le> f a) acc \<Longrightarrow>
   sorted_wrt (\<lambda>a b. f b \<le> f a) (sort_insert (\<lambda>a b. f a - f b) x acc)"
  for f :: "'a \<Rightarrow> int"
  by (induction acc) (auto simp: set_sort_insert)

lemma sorted_foldl_sort_insert:
  "sorted_wrt (\<lambda>a b. f b \<le> f a) acc \<Longrightarrow>
   sorted_wrt (\<lambda>a b. f b \<le> f a) (foldl (\<lambda>acc x. sort_insert (\<lambda>a b. f a - f b) x acc) acc xs)"
  for f :: "'a \<Rightarrow> int"
  by (induction xs arbitrary: acc) (simp_all add: sorted_sort_insert)

lemma js_sort_by_key: "js_sort (\<lambda>a b. f a - f b) xs = sort_key f xs"
  for f :: "'a \<Rightarrow> int"
proof (rule properties_for_sort_key [symmetric])
  let ?acc = "foldl (\<lambda>acc x. sort_insert (\<lambda>a b. f a - f b) x acc) [] xs"
  show "mset (js_sort (\<lambda>a b. f a - f b) xs) = mset xs"
    by (rule mset_js_sort)
  show "filter (\<lambda>x. f k = f x) (js_sort (\<lambda>a b. f a - f b) xs) = filter (\<lambda>x. f k = f x) xs" for k
  proof -
    have "filter (\<lambda>x. f k = f x) (rev ?acc) = rev (filter (\<lambda>x. f k = f x) ?acc)"
      by (rule rev_filter [symmetric])
    also have "\<dots> = rev (filter (\<lambda>x. f k = f x) (rev xs @ []))"
      by (simp only: filter_foldl_sort_insert)
    also have "\<dots> = filter (\<lambda>x. f k = f x) xs"
      by (simp add: rev_filter)
    finally show ?thesis by (simp only: js_sort_def)
  qed
  have "sorted_wrt (\<lambda>a b. f b \<le> f a) ?acc"
    by (rule sorted_foldl_sort_insert) simp
  then have "sorted_wrt (\<lambda>a b. f a \<le> f b) (rev ?acc)"
    by (simp add: sorted_wrt_rev)
  then show "sorted (map f (js_sort (\<lambda>a b. f a - f b) xs))"
    by (simp only: js_sort_def sorted_map)
qed

text \<open>
  When every row has a valid date, \<open>allChanges\<close> is the stable sort of the flattened
  rows by date, ascending or descending: rows of equal date keep their order.
\<close>

lemma allChanges_valid_dates:
  assumes "\<forall>r \<in> set (flatten w (players v)). row_date r \<noteq> None"
  shows "allChanges w (v\<lparr>sortOrder := Asc\<rparr>) = sort_key row_time (flatten w (players v))"
    and "allChanges w (v\<lparr>sortOrder := Desc\<rparr>) = sort_key (\<lambda>r. - row_time r) (flatten w (players v))"
proof -
  let ?rows = "flatten w (players v)"
  have dated: "\<exists>t. row_date a = Some t" if "a \<in> set ?rows" for a
    using that assms by auto
  have asc: "(0 < compare_rows Asc a b) = (0 < row_time a - row_time b)"
    if "a \<in> set ?rows" "b \<in> set ?rows" for a b
    using dated [OF that(1)] dated [OF that(2)]
    by (auto simp: compare_rows_def time_minus_def row_time_def)
  have desc: "(0 < compare_rows Desc a b) = (0 < (- row_time a) - (- row_time b))"
    if "a \<in> set ?rows" "b \<in> set ?rows" for a b
    using dated [OF that(1)] dated [OF that(2)]
    by (auto simp: compare_rows_def time_minus_def row_time_def)
  have "js_sort (compare_rows Asc) ?rows = js_sort (\<lambda>a b. row_time a - row_time b) ?rows"
    by (rule js_sort_cong) (rule asc)
  also have "\<dots> = sort_key row_time ?rows"
    by (rule js_sort_by_key)
  finally show "allChanges w (v\<lparr>sortOrder := Asc\<rparr>) = sort_key row_time ?rows"
    by (simp add: allChanges_def)
  have "js_sort (compare_rows Desc) ?rows = js_sort (\<lambda>a b. (- row_time a) - (- row_time b)) ?rows"
    by (rule js_sort_cong) (rule desc)
  also have "\<dots> = sort_key (\<lambda>r. - row_time r) ?rows"
    by (rule js_sort_by_key)
  finally show "allChanges w (v\<lparr>sortOrder := Desc\<rparr>) = sort_key (\<lambda>r. - row_time r) ?rows"
    by (simp add: allChanges_def)
qed

lemma parse_example_1: "iso_parse 0 ''2024-01-01T00:00:00.000Z'' = Some 1704067200000"
  by (simp add: iso_parse_def parse_day_def parse_clock_def digit_def days_from_civil_def msPerDay_def)

lemma parse_example_2: "iso_parse 0 ''2024-01-02T00:00:00.000Z'' = Some 1704153600000"
  by (simp add: iso_parse_def parse_day_def parse_clock_def digit_def days_from_civil_def msPerDay_def)

lemma parse_example_3: "iso_parse 0 ''2024-01-01'' = Some 1704067200000"
  by (simp add: iso_parse_def parse_day_def parse_clock_def digit_def days_from_civil_def msPerDay_def)

lemma parse_example_4: "iso_parse 0 ''2023-12-31T12:00:00'' = Some 1704024000000"
  by (simp add: iso_parse_def parse_day_def parse_clock_def digit_def days_from_civil_def msPerDay_def)

lemma parse_example_5: "iso_parse 0 ''2024-01-01T23:00:00'' = Some 1704150000000"
  by (simp add: iso_parse_def parse_day_def parse_clock_def digit_def days_from_civil_def msPerDay_def)

lemma parse_example_6: "iso_parse 0 ''2024-01-02T00:00:01'' = Some 1704153601000"
  by (simp add: iso_parse_def parse_day_def parse_clock_def digit_def days_from_civil_def msPerDay_def)

lemma parse_example_7: "iso_parse (- 18000000) ''2024-01-01'' = Some 1704067200000"
  by (simp add: iso_parse_def parse_day_def parse_clock_def digit_def days_from_civil_def msPerDay_def)

lemma parse_example_8: "iso_parse (- 18000000) ''2023-12-31T12:00:00'' = Some 1704042000000"
  by (simp add: iso_parse_def parse_day_def parse_clock_def digit_def days_from_civil_def msPerDay_def)

lemma parse_example_9: "iso_parse (- 18000000) ''2024-01-01T23:00:00'' = Some 1704168000000"
  by (simp add: iso_parse_def parse_day_def parse_clock_def digit_def days_from_civil_def msPerDay_def)

lemma parse_example_10: "iso_parse (- 18000000) ''2024-01-02T00:00:01'' = Some 1704171601000"
  by (simp add: iso_parse_def parse_day_def parse_clock_def digit_def days_from_civil_def msPerDay_def)

lemmas parse_examples = parse_example_1 parse_example_2 parse_example_3 parse_example_4 parse_example_5 parse_example_6 parse_example_7 parse_example_8 parse_example_9 parse_example_10

lemma new_Date_offline: "new_Date (offline tz now) s = (if s = [] then None else iso_parse tz s)"
  by (simp add: new_Date_def offline_def)

text \<open>
  C6 fails when a row has no valid date. The comparator subtracts time values, so it
  yields NaN whenever one of its rows has an Invalid Date, and the sort takes NaN for 0:
  such a row ties with every other row, while the rows around it are still ordered among
  themselves. With the three changes of \<open>undated_view\<close> (1 January, no date,
  2 January) the descending order leaves 1 January before 2 January, and toggling to
  ascending gives the same sequence, not its reverse.
\<close>

theorem allChanges_undated_rows:
  "sortOrder undated_view = Desc \<and>
   map row_label (allChanges (offline 0 0) undated_view) =
     [(''a1'', Some 1704067200000), (''a2'', None), (''a3'', Some 1704153600000)] \<and>
   sortOrder (toggleSort undated_view) = Asc \<and>
   map row_label (allChanges (offline 0 0) (toggleSort undated_view)) =
     [(''a1'', Some 1704067200000), (''a2'', None), (''a3'', Some 1704153600000)]"
  by (simp add: allChanges_def toggleSort_def undated_view_def new_tracker_def flatten_def
      player_with_def flatten_change_def dated_change_def blank_change_def date_string_def
      js_or_def truthy_def new_Date_offline parse_examples row_label_def js_sort_def
      compare_rows_def time_minus_def)

lemma filteredChanges_conjunction:
  "filteredChanges w v =
     filter (\<lambda>change.
        (filterSourceCountryId v = [] \<or> row_fromCountryId change = Some (filterSourceCountryId v)) \<and>
        (filterDestinationCountryId v = [] \<or>
           row_toCountryId change = Some (filterDestinationCountryId v)) \<and>
        (filterStartDate v = [] \<or>
           date_ge (row_date change) (setHours_start w (new_Date w (filterStartDate v)))) \<and>
        (filterEndDate v = [] \<or>
           date_le (row_date change) (setHours_end w (new_Date w (filterEndDate v)))))
       (allChanges w v)"
  by (auto simp: filteredChanges_def Let_def intro: filter_cong)

lemma local_midnight_east:
  "local_time w = (\<lambda>t. t + tz) \<Longrightarrow> utc_time w = (\<lambda>l. l - tz) \<Longrightarrow>
   0 \<le> tz \<Longrightarrow> tz < msPerDay \<Longrightarrow>
   local_midnight w (d * msPerDay) = d * msPerDay - tz"
  by (simp add: local_midnight_def msPerDay_def)

lemma local_midnight_west:
  "local_time w = (\<lambda>t. t + tz) \<Longrightarrow> utc_time w = (\<lambda>l. l - tz) \<Longrightarrow>
   tz < 0 \<Longrightarrow> - msPerDay \<le> tz \<Longrightarrow>
   local_midnight w (d * msPerDay) = (d - 1) * msPerDay - tz"
proof -
  assume z: "local_time w = (\<lambda>t. t + tz)" "utc_time w = (\<lambda>l. l - tz)"
    and a: "tz < 0" "- msPerDay \<le> tz"
  have "(d * 86400000 + tz) div 86400000 = d - 1"
    using a by (simp add: msPerDay_def div_pos_neg_trivial)
  then show ?thesis
    by (simp add: local_midnight_def msPerDay_def z)
qed

lemma zone_offline:
  "local_time (offline tz now) t = t + tz" "utc_time (offline tz now) l = l - tz"
  by (simp_all add: offline_def)

lemma flatten_new_year:
  "map row_label (flatten (offline tz now) (players new_year_view)) =
     [(''x0'', iso_parse tz ''2023-12-31T12:00:00''), (''x1'', iso_parse tz ''2024-01-01T23:00:00''),
      (''x2'', iso_parse tz ''2024-01-02T00:00:01'')]"
  by (simp add: new_year_view_def new_tracker_def flatten_def player_with_def flatten_change_def
      dated_change_def blank_change_def date_string_def js_or_def truthy_def new_Date_offline
      row_label_def)

text \<open>
  C4 fails west of UTC. The value of a date input is \<open>YYYY-MM-DD\<close>, which
  \<open>new Date\<close> reads as midnight UTC; \<open>setHours\<close> then moves within the local day of
  that instant, which west of UTC is the day before (\<open>local_midnight_west\<close>). In a zone
  five hours behind UTC, with both filters set to 2024-01-01, the change of
  2024-01-01 23:00 local time is filtered out and the change of 2023-12-31 12:00 local
  time is kept. In UTC the same view keeps exactly the change of 2024-01-01 23:00.
\<close>

theorem filteredChanges_new_year_west:
  "map row_label (filteredChanges (offline (- 18000000) 0) new_year_view) =
     [(''x0'', Some 1704042000000)] \<and>
   iso_parse (- 18000000) ''2023-12-31T12:00:00'' = Some 1704042000000 \<and>
   map row_label (allChanges (offline (- 18000000) 0) new_year_view) =
     [(''x2'', Some 1704171601000), (''x1'', Some 1704168000000), (''x0'', Some 1704042000000)] \<and>
   iso_parse (- 18000000) ''2024-01-01T23:00:00'' = Some 1704168000000 \<and>
   map row_label (filteredChanges (offline 0 0) new_year_view) = [(''x1'', Some 1704150000000)]"
proof -
  have rows: "flatten (offline tz now) (players new_year_view) =
      [\<lparr>row_username = ''ann'', row_userId = ''u1'',
        row_change = dated_change ''x0'' ''2023-12-31T12:00:00'', row_fromCountryId = None,
        row_toCountryId = None, row_date = iso_parse tz ''2023-12-31T12:00:00''\<rparr>,
       \<lparr>row_username = ''ann'', row_userId = ''u1'',
        row_change = dated_change ''x1'' ''2024-01-01T23:00:00'', row_fromCountryId = None,
        row_toCountryId = None, row_date = iso_parse tz ''2024-01-01T23:00:00''\<rparr>,
       \<lparr>row_username = ''ann'', row_userId = ''u1'',
        row_change = dated_change ''x2'' ''2024-01-02T00:00:01'', row_fromCountryId = None,
        row_toCountryId = None, row_date = iso_parse tz ''2024-01-02T00:00:01''\<rparr>]" for tz now
    by (simp add: new_year_view_def new_tracker_def flatten_def player_with_def flatten_change_def
        dated_change_def blank_change_def date_string_def js_or_def truthy_def new_Date_offline
        data_field_def)
  have ord: "sortOrder new_year_view = Desc"
    by (simp add: new_year_view_def new_tracker_def)
  have west: "allChanges (offline (- 18000000) 0) new_year_view =
      rev (flatten (offline (- 18000000) 0) (players new_year_view))"
    by (simp add: allChanges_def ord rows parse_examples js_sort_def compare_rows_def time_minus_def)
  have utc: "allChanges (offline 0 0) new_year_view =
      rev (flatten (offline 0 0) (players new_year_view))"
    by (simp add: allChanges_def ord rows parse_examples js_sort_def compare_rows_def time_minus_def)
  have filters: "filterSourceCountryId new_year_view = []" "filterDestinationCountryId new_year_view = []"
    "filterStartDate new_year_view = ''2024-01-01''" "filterEndDate new_year_view = ''2024-01-01''"
    by (simp_all add: new_year_view_def new_tracker_def)
  have bounds_west:
    "setHours_start (offline (- 18000000) 0) (new_Date (offline (- 18000000) 0) ''2024-01-01'') = Some 1703998800000"
    "setHours_end (offline (- 18000000) 0) (new_Date (offline (- 18000000) 0) ''2024-01-01'') = Some 1704085199999"
    by (simp_all add: setHours_start_def setHours_end_def new_Date_offline parse_examples
        local_midnight_def zone_offline msPerDay_def)
  have bounds_utc:
    "setHours_start (offline 0 0) (new_Date (offline 0 0) ''2024-01-01'') = Some 1704067200000"
    "setHours_end (offline 0 0) (new_Date (offline 0 0) ''2024-01-01'') = Some 1704153599999"
    by (simp_all add: setHours_start_def setHours_end_def new_Date_offline parse_examples
        local_midnight_def zone_offline msPerDay_def)
  have 1: "map row_label (filteredChanges (offline (- 18000000) 0) new_year_view) =
     [(''x0'', Some 1704042000000)]"
    by (simp add: filteredChanges_conjunction filters bounds_west west rows parse_examples
        date_ge_def date_le_def row_label_def dated_change_def blank_change_def)
  have 2: "map row_label (allChanges (offline (- 18000000) 0) new_year_view) =
     [(''x2'', Some 1704171601000), (''x1'', Some 1704168000000), (''x0'', Some 1704042000000)]"
    by (simp add: west rows parse_examples row_label_def dated_change_def blank_change_def)
  have 3: "map row_label (filteredChanges (offline 0 0) new_year_view) = [(''x1'', Some 1704150000000)]"
    by (simp add: filteredChanges_conjunction filters bounds_utc utc rows parse_examples
        date_ge_def date_le_def row_label_def dated_change_def blank_change_def)
  from 1 2 3 show ?thesis
    by (simp add: parse_examples)
qed

text \<open>
  Flattening gives one row per change, in order; the country identifiers come from the
  new field names, else from the legacy ones; an unparsable or missing date is shown as
  "Invalid date". The date is parsed from the creation time when there is one, else from
  the timestamp.
\<close>

lemma flatten_rows:
  "length (flatten w ps) = sum_list (map (\<lambda>player. length (citizenshipChanges player)) ps) \<and>
   map row_change (flatten w ps) = concat (map citizenshipChanges ps) \<and>
   row_fromCountryId (flatten_change w player change) =
     (if truthy (data_field fromCountryId change) then data_field fromCountryId change
      else data_field from_legacy change) \<and>
   row_toCountryId (flatten_change w player change) =
     (if truthy (data_field toCountryId change) then data_field toCountryId change
      else data_field to_legacy change) \<and>
   row_date (flatten_change w player change) =
     (if truthy (createdAt change) then Date_parse w (the (createdAt change))
      else if truthy (timestamp change) then Date_parse w (the (timestamp change))
      else None) \<and>
   formatDate toLocaleDateString None = ''Invalid date''"
proof -
  have "length (flatten w ps) = sum_list (map (\<lambda>player. length (citizenshipChanges player)) ps)"
    by (simp add: flatten_def length_concat comp_def)
  moreover have "map row_change (flatten w ps) = concat (map citizenshipChanges ps)"
    by (simp add: flatten_def map_concat comp_def flatten_change_def)
  moreover have "row_date (flatten_change w player change) =
     (if truthy (createdAt change) then Date_parse w (the (createdAt change))
      else if truthy (timestamp change) then Date_parse w (the (timestamp change))
      else None)"
    by (auto simp: flatten_change_def date_string_def js_or_def truthy_def new_Date_def
        split: option.splits)
  ultimately show ?thesis
    by (simp add: flatten_change_def js_or_def formatDate_def)
qed

text \<open>
  C3 fails in the order of the date fallback: the row of a change that has both a
  creation time and a timestamp is dated by the creation time, where the player's
  timeline dates the same change by its timestamp.
\<close>

theorem flatten_prefers_createdAt:
  "createdAt two_dates = Some ''2024-01-02T00:00:00.000Z'' \<and>
   timestamp two_dates = Some ''2024-01-01T00:00:00.000Z'' \<and>
   map row_date (flatten (offline 0 0) [player_with [two_dates]]) = [Some 1704153600000] \<and>
   new_Date (offline 0 0) ''2024-01-02T00:00:00.000Z'' = Some 1704153600000 \<and>
   new_Date (offline 0 0) ''2024-01-01T00:00:00.000Z'' = Some 1704067200000 \<and>
   diagram_date_string two_dates = Some ''2024-01-01T00:00:00.000Z''"
  by (simp add: two_dates_def blank_change_def flatten_def player_with_def flatten_change_def
      date_string_def js_or_def truthy_def new_Date_offline parse_examples diagram_date_string_def)

end
